theory Spec2Isabelle
  imports Complex_Main "HOL-Library.Sublist"
begin

section \<open>Data model\<close>

text \<open>
  The expense tracker of \<^verbatim>\<open>app.py\<close> keeps, per user, a two-column table
  (\<^verbatim>\<open>Categories\<close>, \<^verbatim>\<open>Total\<close>) in a CSV file, a text report per month and a
  one-line marker file holding the month of the last reset. Amounts are Python floats;
  they are modelled as real numbers, so rounding, infinities and NaN of IEEE arithmetic
  are outside the model.
\<close>

datatype py_error = KeyError | IndexError | ZeroDivisionError | EmptyDataError | ParserError

text \<open>
  A cell of the \<^verbatim>\<open>Total\<close> column as \<^verbatim>\<open>pd.read_csv\<close> delivers it: text that
  parses as a number, text that does not, or an empty cell.
\<close>

datatype cell = Num real | NonNumeric string | Missing

text \<open>
  A parsed ledger table: its rows in order (duplicated categories are possible), or a table that
  has no \<^verbatim>\<open>Total\<close> column at all. The \<^verbatim>\<open>Categories\<close> column is taken to be
  present.
\<close>

datatype csv_table = Csv "(string \<times> cell) list" | Csv_no_total "string list"

text \<open>
  The content of a ledger file as \<^verbatim>\<open>pd.read_csv\<close> meets it: text that parses into a
  table, an empty file (\<^verbatim>\<open>EmptyDataError\<close>: no columns to parse), or text that is
  no well-formed CSV, such as a row with more fields than the header
  (\<^verbatim>\<open>ParserError\<close>).
\<close>

datatype ledger_file = Table csv_table | Empty_file | Malformed_file

type_synonym ledger = "(string \<times> real) list"

text \<open>The data frame in memory: after loading, every total is a float.\<close>

datatype dataframe = Frame ledger | NoTotal "string list"

record datetime =
  year :: nat
  month :: nat
  day :: nat
  hour :: nat
  minute :: nat

text \<open>
  One constructor per line of text that the program writes into a report; a numeric field
  is the number that the format string prints.
  \<^item> \<open>TitleLine name label\<close>: \<^verbatim>\<open>Expense Report for {name} - {dt.strftime('%B %Y')}\<close>
  \<^item> \<open>BudgetLine b\<close>: \<^verbatim>\<open>Budget: {budget_val:.2f}\<close>
  \<^item> \<open>ColumnsLine\<close>: \<^verbatim>\<open>Timestamp | Category | Amount\<close>
  \<^item> \<open>ExpenseLine timestamp category amount\<close>
  \<^item> \<open>BlankLine\<close>, \<open>SummaryHeadLine\<close>: the two lines of
    \<^verbatim>\<open>\n---- Month End Summary ----\n\<close>
  \<^item> \<open>TotalExpensesLine\<close>, \<open>RemainingLine\<close>, \<open>PercentUsedLine\<close>,
    \<open>StatusLine text\<close> (\<^verbatim>\<open>Status: {text}\<close>), \<open>ClosedOnLine date\<close>.
\<close>

datatype report_line =
    TitleLine string string
  | BudgetLine real
  | ColumnsLine
  | ExpenseLine string string real
  | BlankLine
  | SummaryHeadLine
  | TotalExpensesLine real
  | RemainingLine real
  | PercentUsedLine real
  | StatusLine string
  | ClosedOnLine string

text \<open>
  The files the program reads and writes, by path, and the \<^verbatim>\<open>users\<close> table of the
  database. Chart images are not modelled.
\<close>

record state =
  users :: "string set"
  csv_files :: "string \<rightharpoonup> ledger_file"
  report_files :: "string \<rightharpoonup> report_line list"
  reset_files :: "string \<rightharpoonup> string"

section \<open>Ledger store\<close>

definition DATA_FOLDER :: string where "DATA_FOLDER = ''user_data''"
definition REPORTS_FOLDER :: string where "REPORTS_FOLDER = ''monthly_reports''"
definition RESET_FOLDER :: string where "RESET_FOLDER = ''last_reset''"

definition path_join :: "string \<Rightarrow> string \<Rightarrow> string" where
  "path_join folder file = folder @ ''/'' @ file"

definition user_csv_path :: "string \<Rightarrow> string" where
  "user_csv_path name = path_join DATA_FOLDER (name @ ''.csv'')"

definition fresh_ledger :: ledger where
  "fresh_ledger =
     [(''Food'', 0), (''Travel'', 0), (''Loans'', 0), (''Entertainment'', 0),
      (''Shopping'', 0), (''Others'', 0), (''Budget'', 0)]"

text \<open>\<^verbatim>\<open>pd.to_numeric(..., errors="coerce")\<close>: what does not parse becomes NaN (\<open>None\<close>).\<close>

fun to_numeric_coerce :: "cell \<Rightarrow> real option" where
  "to_numeric_coerce (Num x) = Some x"
| "to_numeric_coerce (NonNumeric s) = None"
| "to_numeric_coerce Missing = None"

fun fillna :: "real \<Rightarrow> real option \<Rightarrow> real" where
  "fillna d None = d"
| "fillna d (Some x) = x"

text \<open>\<^verbatim>\<open>pd.read_csv\<close>: it raises on a file it cannot parse.\<close>

fun read_csv :: "ledger_file \<Rightarrow> py_error + csv_table" where
  "read_csv (Table t) = Inr t"
| "read_csv Empty_file = Inl EmptyDataError"
| "read_csv Malformed_file = Inl ParserError"

text \<open>
  Lines 47 to 59. The function has no handler, so what \<^verbatim>\<open>pd.read_csv\<close> raises on
  an existing file leaves it as an exception.
\<close>

definition load_user_data :: "string \<Rightarrow> state \<Rightarrow> py_error + dataframe" where
  "load_user_data name st =
     (case csv_files st (user_csv_path name) of
        Some file \<Rightarrow>
          (case read_csv file of
             Inl e \<Rightarrow> Inl e
           | Inr (Csv rows) \<Rightarrow>
               Inr (Frame (map (\<lambda>r. (fst r, fillna 0 (to_numeric_coerce (snd r)))) rows))
           | Inr (Csv_no_total cats) \<Rightarrow> Inr (NoTotal cats))
      | None \<Rightarrow> Inr (Frame fresh_ledger))"

fun to_csv :: "dataframe \<Rightarrow> csv_table" where
  "to_csv (Frame rows) = Csv (map (\<lambda>r. (fst r, Num (snd r))) rows)"
| "to_csv (NoTotal cats) = Csv_no_total cats"

definition save_user_data :: "string \<Rightarrow> dataframe \<Rightarrow> state \<Rightarrow> state" where
  "save_user_data name df st =
     st\<lparr>csv_files := (csv_files st)(user_csv_path name \<mapsto> Table (to_csv df))\<rparr>"

section \<open>Budget evaluator\<close>

text \<open>
  The expression
  \<^verbatim>\<open>float(df.loc[df["Categories"] == "Budget", "Total"].values[0])\<close>,
  which the program evaluates in four places: the total of the first row named
  \<^verbatim>\<open>Budget\<close>; a missing column raises KeyError, no such row raises IndexError.
\<close>

fun budget_value :: "dataframe \<Rightarrow> py_error + real" where
  "budget_value (NoTotal cats) = Inl KeyError"
| "budget_value (Frame rows) =
     (case filter (\<lambda>r. fst r = ''Budget'') rows of
        [] \<Rightarrow> Inl IndexError
      | r # _ \<Rightarrow> Inr (snd r))"

text \<open>
  Float division with the failure on a zero divisor written out, as for Python floats
  (a NumPy scalar would give an infinity or NaN and a warning instead).
\<close>

definition py_div :: "real \<Rightarrow> real \<Rightarrow> py_error + real" where
  "py_div a b = (if b = 0 then Inl ZeroDivisionError else Inr (a / b))"

fun compute_budget_status :: "dataframe \<Rightarrow> py_error + (real \<times> real \<times> real \<times> real)" where
  "compute_budget_status (NoTotal cats) = Inl KeyError"
| "compute_budget_status (Frame rows) =
     (let exp_df = filter (\<lambda>r. fst r \<noteq> ''Budget'') rows;
          total_expenses = sum_list (map snd exp_df)
      in case budget_value (Frame rows) of
           Inl e \<Rightarrow> Inl e
         | Inr budget_val \<Rightarrow>
             (let remaining = budget_val - total_expenses
              in if budget_val > 0 then
                   (case py_div total_expenses budget_val of
                      Inl e \<Rightarrow> Inl e
                    | Inr q \<Rightarrow> Inr (budget_val, total_expenses, remaining, q * 100))
                 else Inr (budget_val, total_expenses, remaining, 0)))"

section \<open>Dates, month keys and paths\<close>

definition digit_char :: "nat \<Rightarrow> char" where
  "digit_char d = ''0123456789'' ! d"

fun string_of_nat :: "nat \<Rightarrow> string" where
  "string_of_nat n =
     (if n < 10 then [digit_char n]
      else string_of_nat (n div 10) @ [digit_char (n mod 10)])"

text \<open>The zero-padded two-digit fields \<^verbatim>\<open>%m\<close>, \<^verbatim>\<open>%d\<close>, \<^verbatim>\<open>%H\<close>, \<^verbatim>\<open>%M\<close>.\<close>

definition two_digits :: "nat \<Rightarrow> string" where
  "two_digits n = (if n < 10 then ''0'' @ string_of_nat n else string_of_nat n)"

text \<open>\<^verbatim>\<open>%B\<close>, for the months 1 to 12 that a datetime can hold.\<close>

definition month_name :: "nat \<Rightarrow> string" where
  "month_name m =
     [''January'', ''February'', ''March'', ''April'', ''May'', ''June'', ''July'',
      ''August'', ''September'', ''October'', ''November'', ''December''] ! (m - 1)"

definition month_key :: "datetime \<Rightarrow> string" where
  "month_key dt = string_of_nat (year dt) @ ''-'' @ two_digits (month dt)"

definition month_label :: "datetime \<Rightarrow> string" where
  "month_label dt = month_name (month dt) @ ''_'' @ string_of_nat (year dt)"

text \<open>\<^verbatim>\<open>dt.strftime('%B %Y')\<close>, \<^verbatim>\<open>'%d-%m-%Y %H:%M'\<close> and \<^verbatim>\<open>'%d-%m-%Y'\<close>.\<close>

definition title_month :: "datetime \<Rightarrow> string" where
  "title_month dt = month_name (month dt) @ '' '' @ string_of_nat (year dt)"

definition closed_on :: "datetime \<Rightarrow> string" where
  "closed_on dt =
     two_digits (day dt) @ ''-'' @ two_digits (month dt) @ ''-'' @ string_of_nat (year dt)"

definition timestamp :: "datetime \<Rightarrow> string" where
  "timestamp dt = closed_on dt @ '' '' @ two_digits (hour dt) @ '':'' @ two_digits (minute dt)"

definition report_file_path :: "string \<Rightarrow> datetime \<Rightarrow> string" where
  "report_file_path name dt = path_join REPORTS_FOLDER (name @ ''_'' @ month_label dt @ ''.txt'')"

definition reset_file_path :: "string \<Rightarrow> string" where
  "reset_file_path name = path_join RESET_FOLDER (name @ ''.txt'')"

definition leap_year :: "nat \<Rightarrow> bool" where
  "leap_year y \<longleftrightarrow> (y mod 4 = 0 \<and> y mod 100 \<noteq> 0) \<or> y mod 400 = 0"

definition days_in_month :: "nat \<Rightarrow> nat \<Rightarrow> nat" where
  "days_in_month y m =
     (if m = 2 then (if leap_year y then 29 else 28)
      else if m = 4 \<or> m = 6 \<or> m = 9 \<or> m = 11 then 30 else 31)"

text \<open>\<^verbatim>\<open>dt.replace(day=d)\<close> and \<^verbatim>\<open>dt - timedelta(days=1)\<close>; the time of day stays.\<close>

definition replace_day :: "datetime \<Rightarrow> nat \<Rightarrow> datetime" where
  "replace_day dt d = dt\<lparr>day := d\<rparr>"

definition minus_one_day :: "datetime \<Rightarrow> datetime" where
  "minus_one_day dt =
     (if day dt > 1 then dt\<lparr>day := day dt - 1\<rparr>
      else if month dt > 1 then
        dt\<lparr>month := month dt - 1, day := days_in_month (year dt) (month dt - 1)\<rparr>
      else dt\<lparr>year := year dt - 1, month := 12, day := 31\<rparr>)"

text \<open>
  \<^verbatim>\<open>str.strip()\<close>, with a character read as a code point below 256: the whitespace
  there is 9 to 13, 28 to 32, 133 (next line) and 160 (no-break space).
\<close>

definition is_space :: "char \<Rightarrow> bool" where
  "is_space c \<longleftrightarrow>
     (let n = of_char c :: nat
      in (9 \<le> n \<and> n \<le> 13) \<or> (28 \<le> n \<and> n \<le> 32) \<or> n = 133 \<or> n = 160)"

definition strip :: "string \<Rightarrow> string" where
  "strip s = rev (dropWhile is_space (rev (dropWhile is_space s)))"

section \<open>Report writer\<close>

text \<open>\<^verbatim>\<open>open(rpt, "a")\<close> followed by writes: the file is created empty when absent.\<close>

definition append_lines :: "string \<Rightarrow> report_line list \<Rightarrow> state \<Rightarrow> state" where
  "append_lines rpt ls st =
     st\<lparr>report_files := (report_files st)
          (rpt \<mapsto> (case report_files st rpt of None \<Rightarrow> [] | Some old \<Rightarrow> old) @ ls)\<rparr>"

definition report_header :: "string \<Rightarrow> datetime \<Rightarrow> real \<Rightarrow> report_line list" where
  "report_header name dt budget_val =
     [TitleLine name (title_month dt), BudgetLine budget_val, ColumnsLine]"

text \<open>The function's return value, the path, is ignored by every caller and left out.\<close>

definition ensure_monthly_report_exists :: "string \<Rightarrow> datetime \<Rightarrow> state \<Rightarrow> py_error + state" where
  "ensure_monthly_report_exists name dt st =
     (let rpt = report_file_path name dt
      in if report_files st rpt = None then
           (case load_user_data name st of
              Inl e \<Rightarrow> Inl e
            | Inr df \<Rightarrow>
               (case budget_value df of
                  Inl e \<Rightarrow> Inl e
                | Inr budget_val \<Rightarrow>
                    if budget_val > 0 then
                      Inr (st\<lparr>report_files := (report_files st)
                                (rpt \<mapsto> report_header name dt budget_val)\<rparr>)
                    else Inr st))
         else Inr st)"

definition append_expense_to_report ::
  "string \<Rightarrow> string \<Rightarrow> real \<Rightarrow> datetime \<Rightarrow> state \<Rightarrow> py_error + state" where
  "append_expense_to_report name category amount dt st =
     (let rpt = report_file_path name dt
      in case ensure_monthly_report_exists name dt st of
           Inl e \<Rightarrow> Inl e
         | Inr st1 \<Rightarrow> Inr (append_lines rpt [ExpenseLine (timestamp dt) category amount] st1))"

definition status_text :: "real \<Rightarrow> string" where
  "status_text percent_used =
     (if percent_used \<ge> 100 then ''Budget Exceeded''
      else if percent_used \<ge> 80 then ''Close to Budget''
      else ''Within Budget'')"

definition summary_block :: "real \<Rightarrow> real \<Rightarrow> real \<Rightarrow> datetime \<Rightarrow> report_line list" where
  "summary_block total_expenses remaining percent_used dt =
     [BlankLine, SummaryHeadLine, TotalExpensesLine total_expenses, RemainingLine remaining,
      PercentUsedLine percent_used, StatusLine (status_text percent_used),
      ClosedOnLine (closed_on dt)]"

definition finalize_month_report :: "string \<Rightarrow> dataframe \<Rightarrow> datetime \<Rightarrow> state \<Rightarrow> py_error + state" where
  "finalize_month_report name df dt st =
     (let rpt = report_file_path name dt
      in case compute_budget_status df of
           Inl e \<Rightarrow> Inl e
         | Inr (budget_val, total_expenses, remaining, percent_used) \<Rightarrow>
             Inr (append_lines rpt (summary_block total_expenses remaining percent_used dt) st))"

section \<open>The script\<close>

text \<open>
  What a run shows through \<^verbatim>\<open>st.write\<close> (label and number), \<^verbatim>\<open>st.info\<close>,
  \<^verbatim>\<open>st.error\<close>, \<^verbatim>\<open>st.warning\<close> and \<^verbatim>\<open>st.success\<close>, with the text less its
  emoji. Headings, tables and widgets are not modelled.
\<close>

datatype message =
    St_write string real
  | St_info string
  | St_error string
  | St_warning string
  | St_success string

definition show_budget_summary :: "dataframe \<Rightarrow> py_error + message list" where
  "show_budget_summary df =
     (case compute_budget_status df of
        Inl e \<Rightarrow> Inl e
      | Inr (budget_val, total_expenses, remaining, percent_used) \<Rightarrow>
          Inr ([St_write ''Budget'' budget_val, St_write ''Spent'' total_expenses,
                St_write ''Remaining'' remaining, St_write ''Used'' percent_used] @
               (if budget_val \<le> 0 then
                  [St_info ''No budget set. Please set a budget (new users).'']
                else if percent_used \<ge> 100 then [St_error ''Budget exceeded!'']
                else if percent_used \<ge> 80 then [St_warning ''Budget usage >= 80%'']
                else [St_success ''You're within your budget''])))"

text \<open>The three in-place updates of the \<^verbatim>\<open>Total\<close> column (lines 256, 267/313, 293).\<close>

definition reset_expenses :: "ledger \<Rightarrow> ledger" where
  "reset_expenses rows = map (\<lambda>r. if fst r \<noteq> ''Budget'' then (fst r, 0) else r) rows"

definition set_budget :: "real \<Rightarrow> ledger \<Rightarrow> ledger" where
  "set_budget v rows = map (\<lambda>r. if fst r = ''Budget'' then (fst r, v) else r) rows"

definition add_to_category :: "string \<Rightarrow> real \<Rightarrow> ledger \<Rightarrow> ledger" where
  "add_to_category category amount rows =
     map (\<lambda>r. if fst r = category then (fst r, snd r + amount) else r) rows"

definition rollover_warning :: message where
  "rollover_warning =
     St_warning ''New month started: previous month's report finalized and expenses reset.''"

text \<open>
  Lines 238 to 260: the month handling of a run. It returns the data frame, the budget
  read at line 246, the files and what was shown.
\<close>

definition month_handling ::
  "string \<Rightarrow> datetime \<Rightarrow> dataframe \<Rightarrow> state \<Rightarrow> py_error + (ledger \<times> real \<times> state \<times> message list)" where
  "month_handling name india_dt df st =
     (let current_mkey = month_key india_dt;
          reset_file = reset_file_path name;
          last_saved_month = map_option strip (reset_files st reset_file)
      in case df of
           NoTotal cats \<Rightarrow> Inl KeyError
         | Frame rows \<Rightarrow>
            (case budget_value (Frame rows) of
               Inl e \<Rightarrow> Inl e
             | Inr budget_val \<Rightarrow>
                (case (if budget_val > 0 then ensure_monthly_report_exists name india_dt st
                       else Inr st) of
                   Inl e \<Rightarrow> Inl e
                 | Inr st1 \<Rightarrow>
                     if last_saved_month \<noteq> Some current_mkey \<and> day india_dt = 1 then
                       (let prev_month_dt = replace_day india_dt 1;
                            prev_last_day = minus_one_day prev_month_dt
                        in case finalize_month_report name (Frame rows) prev_last_day st1 of
                             Inl e \<Rightarrow> Inl e
                           | Inr st2 \<Rightarrow>
                               (let rows' = reset_expenses rows;
                                    st3 = save_user_data name (Frame rows') st2;
                                    st4 = st3\<lparr>reset_files :=
                                             (reset_files st3)(reset_file \<mapsto> current_mkey)\<rparr>
                                in Inr (rows', budget_val, st4, [rollover_warning])))
                     else Inr (rows, budget_val, st1, []))))"

text \<open>Lines 263 to 273: a new user whose budget is 0 may save a budget.\<close>

definition save_budget_branch ::
  "string \<Rightarrow> datetime \<Rightarrow> real \<Rightarrow> bool \<Rightarrow> ledger \<Rightarrow> state \<Rightarrow> py_error + (state \<times> message list)" where
  "save_budget_branch name india_dt new_budget pressed rows st =
     (if pressed then
        (let rows' = set_budget new_budget rows;
             st1 = save_user_data name (Frame rows') st
         in case ensure_monthly_report_exists name india_dt st1 of
              Inl e \<Rightarrow> Inl e
            | Inr st2 \<Rightarrow> Inr (st2, [St_success ''Budget saved. You can now add expenses.'']))
      else Inr (st, []))"

text \<open>
  Lines 291 to 307: the pressed \<^verbatim>\<open>Add Expense\<close> button. The numbers that the warning
  and the success message print are left out of their text.
\<close>

definition add_expense_branch ::
  "string \<Rightarrow> datetime \<Rightarrow> string \<Rightarrow> real \<Rightarrow> ledger \<Rightarrow> state \<Rightarrow> py_error + (state \<times> message list)" where
  "add_expense_branch name india_dt category amount rows st =
     (let rows' = add_to_category category amount rows;
          st1 = save_user_data name (Frame rows') st
      in case ensure_monthly_report_exists name india_dt st1 of
           Inl e \<Rightarrow> Inl e
         | Inr st2 \<Rightarrow>
            (case append_expense_to_report name category amount india_dt st2 of
               Inl e \<Rightarrow> Inl e
             | Inr st3 \<Rightarrow>
                (case compute_budget_status (Frame rows') of
                   Inl e \<Rightarrow> Inl e
                 | Inr (budget_val, total_exp, remaining, perc) \<Rightarrow>
                     Inr (st3,
                          (if perc \<ge> 100 then [St_error ''ALERT: Budget exceeded!'']
                           else if perc \<ge> 80 then [St_warning ''WARNING: Budget used'']
                           else []) @ [St_success ''Added'']))))"

text \<open>
  Lines 312 to 326: the pressed \<^verbatim>\<open>Update Budget\<close> button. An existing report of the
  month is read, opened for writing (which empties it) and written anew: the title, the
  new budget line, and the third line of the old content when it has one. The budget
  read at line 310 only fills the input field; it cannot raise after line 246 has not.
\<close>

definition modify_budget_branch ::
  "string \<Rightarrow> datetime \<Rightarrow> real \<Rightarrow> ledger \<Rightarrow> state \<Rightarrow> state \<times> message list" where
  "modify_budget_branch name india_dt new_budget_val rows st =
     (let rows' = set_budget new_budget_val rows;
          st1 = save_user_data name (Frame rows') st;
          rpt = report_file_path name india_dt;
          st2 = (case report_files st1 rpt of
                   None \<Rightarrow> st1
                 | Some old \<Rightarrow>
                     st1\<lparr>report_files := (report_files st1)
                          (rpt \<mapsto> [TitleLine name (title_month india_dt),
                                    BudgetLine new_budget_val] @
                                   (if length old > 2 then [old ! 2] else []))\<rparr>)
      in (st2, [St_success ''Budget updated'']))"

text \<open>
  The widgets of one run: the budget field and button of a new user, the chosen menu
  entry with its fields and whether its button is pressed, and the button
  \<^verbatim>\<open>Save data now\<close>. Viewing charts and opening or downloading a report change no file
  that is modelled.
\<close>

datatype menu =
    View_Summary
  | Add_Expense string real bool
  | Modify_Budget real bool
  | View_Reports
  | View_Charts

record ui =
  new_budget :: real
  save_budget_pressed :: bool
  chosen :: menu
  save_data_pressed :: bool

text \<open>Lines 282 to 368: the chosen menu entry.\<close>

definition menu_branch ::
  "string \<Rightarrow> datetime \<Rightarrow> menu \<Rightarrow> ledger \<Rightarrow> state \<Rightarrow> py_error + (state \<times> message list)" where
  "menu_branch name india_dt m rows st =
     (case m of
        View_Summary \<Rightarrow>
          (case show_budget_summary (Frame rows) of
             Inl e \<Rightarrow> Inl e
           | Inr msgs \<Rightarrow> Inr (st, msgs))
      | Add_Expense category amount pressed \<Rightarrow>
          if pressed then add_expense_branch name india_dt category amount rows st
          else Inr (st, [])
      | Modify_Budget new_budget_val pressed \<Rightarrow>
          if pressed then Inr (modify_budget_branch name india_dt new_budget_val rows st)
          else Inr (st, [])
      | View_Reports \<Rightarrow>
          (case ensure_monthly_report_exists name india_dt st of
             Inl e \<Rightarrow> Inl e
           | Inr st1 \<Rightarrow> Inr (st1, []))
      | View_Charts \<Rightarrow> Inr (st, []))"

text \<open>The data frame as the chosen entry leaves it in memory.\<close>

fun frame_after :: "menu \<Rightarrow> ledger \<Rightarrow> ledger" where
  "frame_after (Add_Expense category amount True) rows = add_to_category category amount rows"
| "frame_after (Modify_Budget new_budget_val True) rows = set_budget new_budget_val rows"
| "frame_after m rows = rows"

text \<open>
  Lines 227 to 375: one run of the script for a non-empty name. A run that raises is
  \<open>Inl\<close>; the rerun that follows a saved budget is the next run.
\<close>

definition run_script :: "string \<Rightarrow> datetime \<Rightarrow> ui \<Rightarrow> state \<Rightarrow> py_error + (state \<times> message list)" where
  "run_script name india_dt inp st0 =
     (let is_new_user = (name \<notin> users st0);
          st = st0\<lparr>users := insert name (users st0)\<rparr>
      in case load_user_data name st of
           Inl e \<Rightarrow> Inl e
         | Inr df \<Rightarrow>
            (case month_handling name india_dt df st of
               Inl e \<Rightarrow> Inl e
             | Inr (rows, budget_val, st1, msgs) \<Rightarrow>
                 if is_new_user \<and> budget_val = 0 then
                   (case save_budget_branch name india_dt (new_budget inp)
                           (save_budget_pressed inp) rows st1 of
                      Inl e \<Rightarrow> Inl e
                    | Inr (st2, msgs2) \<Rightarrow> Inr (st2, msgs @ msgs2))
                 else
                   (case menu_branch name india_dt (chosen inp) rows st1 of
                      Inl e \<Rightarrow> Inl e
                    | Inr (st2, msgs2) \<Rightarrow>
                        if save_data_pressed inp then
                          Inr (save_user_data name (Frame (frame_after (chosen inp) rows)) st2,
                               msgs @ msgs2 @ [St_success ''Data saved.''])
                        else Inr (st2, msgs @ msgs2))))"

section \<open>Properties stated over the model\<close>

text \<open>The number of rows named \<^verbatim>\<open>Budget\<close> in a table.\<close>

definition budget_rows :: "(string \<times> 'a) list \<Rightarrow> nat" where
  "budget_rows rows = length (filter (\<lambda>r. fst r = ''Budget'') rows)"

text \<open>Every report that existed before still exists and begins with its former content.\<close>

definition reports_extended :: "state \<Rightarrow> state \<Rightarrow> bool" where
  "reports_extended st st' \<longleftrightarrow>
     (\<forall>p old. report_files st p = Some old \<longrightarrow>
        (\<exists>new. report_files st' p = Some new \<and> prefix old new))"

text \<open>
  The status tiers in the words of the specification, and the text each tier has in the
  closing block of a report and in the summary on screen.
\<close>

datatype tier = Exceeded | Near_limit | Within_budget

definition tier_of :: "real \<Rightarrow> tier" where
  "tier_of percent_used =
     (if percent_used \<ge> 100 then Exceeded
      else if 80 \<le> percent_used \<and> percent_used < 100 then Near_limit
      else Within_budget)"

fun report_status :: "tier \<Rightarrow> string" where
  "report_status Exceeded = ''Budget Exceeded''"
| "report_status Near_limit = ''Close to Budget''"
| "report_status Within_budget = ''Within Budget''"

fun summary_message :: "tier \<Rightarrow> message" where
  "summary_message Exceeded = St_error ''Budget exceeded!''"
| "summary_message Near_limit = St_warning ''Budget usage >= 80%''"
| "summary_message Within_budget = St_success ''You're within your budget''"

text \<open>Every ledger file parses, has both columns and exactly one \<^verbatim>\<open>Budget\<close> row.\<close>

fun csv_one_budget :: "ledger_file \<Rightarrow> bool" where
  "csv_one_budget (Table (Csv rows)) \<longleftrightarrow> budget_rows rows = 1"
| "csv_one_budget (Table (Csv_no_total cats)) \<longleftrightarrow> False"
| "csv_one_budget Empty_file \<longleftrightarrow> False"
| "csv_one_budget Malformed_file \<longleftrightarrow> False"

definition ledgers_ok :: "state \<Rightarrow> bool" where
  "ledgers_ok st \<longleftrightarrow> (\<forall>p t. csv_files st p = Some t \<longrightarrow> csv_one_budget t)"

text \<open>
  The states the program reaches by itself: it starts without any ledger file, and every
  completed run of the script, for any name, date and input, leads to the next state.
\<close>

inductive reachable :: "state \<Rightarrow> bool" where
  start: "csv_files st = Map.empty \<Longrightarrow> reachable st"
| run: "reachable st \<Longrightarrow> run_script name dt inp st = Inr (st', msgs) \<Longrightarrow> reachable st'"

subsection \<open>Concrete states and dates\<close>

definition no_files :: state where
  "no_files = \<lparr>users = {}, csv_files = Map.empty, report_files = Map.empty,
               reset_files = Map.empty\<rparr>"

definition mid_november :: datetime where
  "mid_november = \<lparr>year = 2025, month = 11, day = 14, hour = 9, minute = 30\<rparr>"

definition first_december :: datetime where
  "first_december = \<lparr>year = 2025, month = 12, day = 1, hour = 8, minute = 15\<rparr>"

definition first_january :: datetime where
  "first_january = \<lparr>year = 2026, month = 1, day = 1, hour = 0, minute = 5\<rparr>"

definition november_report :: "report_line list" where
  "november_report =
     [TitleLine ''asha'' ''November 2025'', BudgetLine 1000, ColumnsLine,
      ExpenseLine ''03-11-2025 19:02'' ''Food'' 1050,
      ExpenseLine ''09-11-2025 07:45'' ''Travel'' 100]"

text \<open>The state of the rollover scenario: spending of November, marker \<^verbatim>\<open>2025-11\<close>.\<close>

definition november_state :: state where
  "november_state =
     \<lparr>users = {''asha''},
      csv_files = [''user_data/asha.csv'' \<mapsto>
                     Table (Csv [(''Food'', Num 1050), (''Travel'', Num 100),
                                 (''Budget'', Num 1000)])],
      report_files = [''monthly_reports/asha_November_2025.txt'' \<mapsto> november_report],
      reset_files = [''last_reset/asha.txt'' \<mapsto> ''2025-11'']\<rparr>"

text \<open>
  Ledger files edited by hand: one with a cell that is no number and an empty cell, one
  without the \<^verbatim>\<open>Total\<close> column, one emptied to zero bytes and one with a ragged
  row.
\<close>

definition edited_state :: state where
  "edited_state =
     \<lparr>users = {''ravi''},
      csv_files = [''user_data/ravi.csv'' \<mapsto>
                     Table (Csv [(''Food'', Num 200), (''Travel'', NonNumeric ''n/a''),
                                 (''Loans'', Missing), (''Budget'', Num 500)]),
                   ''user_data/old.csv'' \<mapsto> Table (Csv_no_total [''Food'', ''Budget'']),
                   ''user_data/meera.csv'' \<mapsto> Empty_file,
                   ''user_data/kiran.csv'' \<mapsto> Malformed_file],
      report_files = Map.empty,
      reset_files = Map.empty\<rparr>"

definition add_food :: ui where
  "add_food = \<lparr>new_budget = 0, save_budget_pressed = False,
               chosen = Add_Expense ''Food'' 50 True, save_data_pressed = False\<rparr>"

text \<open>A state at the end of December: marker \<^verbatim>\<open>2025-12\<close>, no report of the month.\<close>

definition december_state :: state where
  "december_state =
     \<lparr>users = {''asha''},
      csv_files = [''user_data/asha.csv'' \<mapsto>
                     Table (Csv [(''Food'', Num 300), (''Budget'', Num 1000)])],
      report_files = Map.empty,
      reset_files = [''last_reset/asha.txt'' \<mapsto> ''2025-12'']\<rparr>"

definition first_budget :: ui where
  "first_budget = \<lparr>new_budget = 1000, save_budget_pressed = True,
                   chosen = View_Summary, save_data_pressed = False\<rparr>"

text \<open>The budget raised to 2000 through the menu entry \<^verbatim>\<open>Modify Budget\<close>.\<close>

definition raise_budget :: ui where
  "raise_budget = \<lparr>new_budget = 0, save_budget_pressed = False,
                   chosen = Modify_Budget 2000 True, save_data_pressed = False\<rparr>"

section \<open>Evaluation of the concrete paths and dates\<close>

declare string_of_nat.simps [simp del]

lemmas path_defs =
  report_file_path_def reset_file_path_def user_csv_path_def path_join_def
  REPORTS_FOLDER_def RESET_FOLDER_def DATA_FOLDER_def month_label_def month_key_def
  month_name_def title_month_def closed_on_def timestamp_def two_digits_def digit_char_def
  string_of_nat.simps

lemmas script_defs =
  run_script_def month_handling_def menu_branch_def add_expense_branch_def
  save_budget_branch_def modify_budget_branch_def show_budget_summary_def
  append_expense_to_report_def ensure_monthly_report_exists_def finalize_month_report_def
  append_lines_def report_header_def summary_block_def status_text_def
  save_user_data_def load_user_data_def add_to_category_def set_budget_def
  reset_expenses_def py_div_def fresh_ledger_def rollover_warning_def
  replace_day_def minus_one_day_def days_in_month_def leap_year_def Let_def

section \<open>Budget evaluator: totals and percentage\<close>

lemma find_budget_value:
  "find (\<lambda>r. fst r = ''Budget'') rows = Some (c, b) \<Longrightarrow> budget_value (Frame rows) = Inr b"
  by (induction rows) (auto split: if_splits)

lemma sum_expenses_filter:
  "sum_list (map snd (filter (\<lambda>r. fst r \<noteq> ''Budget'') rows)) =
   (\<Sum>r\<leftarrow>rows. if fst r = ''Budget'' then 0 else snd r)"
  by (induction rows) auto

lemma compute_budget_status_value:
  assumes "budget_value (Frame rows) = Inr b"
  shows "compute_budget_status (Frame rows) =
           Inr (b, (\<Sum>r\<leftarrow>rows. if fst r = ''Budget'' then 0 else snd r),
                b - (\<Sum>r\<leftarrow>rows. if fst r = ''Budget'' then 0 else snd r),
                if b > 0 then (\<Sum>r\<leftarrow>rows. if fst r = ''Budget'' then 0 else snd r) / b * 100
                else 0)"
  using assms by (simp add: Let_def py_div_def sum_expenses_filter del: budget_value.simps)

text \<open>
  Claim C4. For a ledger with a \<^verbatim>\<open>Budget\<close> row, whose first such row holds \<open>b\<close>,
  \<open>compute_budget_status\<close> returns \<open>b\<close>, the sum of the totals of the rows not named
  \<^verbatim>\<open>Budget\<close>, and their difference (which may be negative); the ledger
  Food 200, Travel 100, Budget 1000 gives (1000, 300, 700, 30).
\<close>

theorem evaluator_totals:
  "(find (\<lambda>r. fst r = ''Budget'') rows = Some (c, b) \<longrightarrow>
      (\<exists>p. compute_budget_status (Frame rows) =
         Inr (b, (\<Sum>r\<leftarrow>rows. if fst r = ''Budget'' then 0 else snd r),
              b - (\<Sum>r\<leftarrow>rows. if fst r = ''Budget'' then 0 else snd r), p))) \<and>
   compute_budget_status (Frame [(''Food'', 200), (''Travel'', 100), (''Budget'', 1000)]) =
     Inr (1000, 300, 700, 30)"
proof (intro conjI impI)
  assume "find (\<lambda>r. fst r = ''Budget'') rows = Some (c, b)"
  then have "budget_value (Frame rows) = Inr b" by (rule find_budget_value)
  then show "\<exists>p. compute_budget_status (Frame rows) =
         Inr (b, (\<Sum>r\<leftarrow>rows. if fst r = ''Budget'' then 0 else snd r),
              b - (\<Sum>r\<leftarrow>rows. if fst r = ''Budget'' then 0 else snd r), p)"
    by (simp only: compute_budget_status_value) blast
next
  show "compute_budget_status (Frame [(''Food'', 200), (''Travel'', 100), (''Budget'', 1000)]) =
     Inr (1000, 300, 700, 30)"
    by (simp add: py_div_def)
qed

theorem evaluator_totals_witness:
  "find (\<lambda>r. fst r = ''Budget'') [(''Food'', 1050), (''Travel'', 100), (''Budget'', 1000::real)]
     = Some (''Budget'', 1000) \<and>
   (\<exists>p. compute_budget_status (Frame [(''Food'', 1050), (''Travel'', 100), (''Budget'', 1000)]) =
      Inr (1000, 1150, - 150, p))"
  using evaluator_totals
    [of "[(''Food'', 1050), (''Travel'', 100), (''Budget'', 1000)]" "''Budget''" 1000]
  by simp

text \<open>
  Claim C5. The evaluator never raises ZeroDivisionError, whatever the data frame. For a
  ledger whose budget is \<open>b\<close> it returns the percentage \<open>t / b * 100\<close> of the expenses
  \<open>t\<close> when \<open>b > 0\<close>, and 0 when \<open>b\<close> is 0 or negative.
\<close>

theorem percent_used_guarded:
  "compute_budget_status df \<noteq> Inl ZeroDivisionError \<and>
   (find (\<lambda>r. fst r = ''Budget'') rows = Some (c, b) \<longrightarrow>
      (\<exists>t r. compute_budget_status (Frame rows) =
         Inr (b, t, r, if b > 0 then t / b * 100 else 0)))"
proof (intro conjI impI)
  show "compute_budget_status df \<noteq> Inl ZeroDivisionError"
    by (cases df) (auto simp: Let_def py_div_def split: list.splits)
next
  assume "find (\<lambda>r. fst r = ''Budget'') rows = Some (c, b)"
  then have "budget_value (Frame rows) = Inr b" by (rule find_budget_value)
  then show "\<exists>t r. compute_budget_status (Frame rows) =
         Inr (b, t, r, if b > 0 then t / b * 100 else 0)"
    by (simp only: compute_budget_status_value) blast
qed

theorem percent_used_guarded_witness:
  "find (\<lambda>r. fst r = ''Budget'') [(''Food'', 50), (''Budget'', 0::real)] = Some (''Budget'', 0) \<and>
   compute_budget_status (Frame [(''Food'', 50), (''Budget'', 0)]) = Inr (0, 50, - 50, 0) \<and>
   find (\<lambda>r. fst r = ''Budget'') [(''Food'', 50), (''Budget'', 200::real)] = Some (''Budget'', 200) \<and>
   compute_budget_status (Frame [(''Food'', 50), (''Budget'', 200)]) = Inr (200, 50, 150, 25)"
  using percent_used_guarded
    [of "Frame [(''Food'', 50), (''Budget'', 0)]" "[(''Food'', 50), (''Budget'', 0)]" "''Budget''" 0]
    percent_used_guarded
    [of "Frame [(''Food'', 50), (''Budget'', 200)]" "[(''Food'', 50), (''Budget'', 200)]" "''Budget''" 200]
  by (simp add: py_div_def)

section \<open>Ledger store: loading\<close>

text \<open>
  Claim C8, as stated, fails: \<open>load_user_data\<close> has no handler around
  \<^verbatim>\<open>pd.read_csv\<close>, so an existing ledger file that is empty, or that is no
  well-formed CSV, makes it raise.
\<close>

theorem load_fails_counterexample:
  "csv_files edited_state (user_csv_path ''meera'') = Some Empty_file \<and>
   load_user_data ''meera'' edited_state = Inl EmptyDataError \<and>
   csv_files edited_state (user_csv_path ''kiran'') = Some Malformed_file \<and>
   load_user_data ''kiran'' edited_state = Inl ParserError"
  by (simp add: edited_state_def load_user_data_def user_csv_path_def path_join_def
        DATA_FOLDER_def)

text \<open>
  Claim C8, amended. Without a ledger file \<open>load_user_data\<close> returns the fresh ledger
  of the seven categories, all 0. From an existing file that \<^verbatim>\<open>pd.read_csv\<close> parses it
  returns, without failing, the rows in order with the same categories, every total that
  is a number kept and every total that is no number or is empty replaced by 0 (a table
  without a \<^verbatim>\<open>Total\<close> column is returned as it is). From an existing file that
  \<^verbatim>\<open>pd.read_csv\<close> cannot parse it raises what \<^verbatim>\<open>pd.read_csv\<close> raises.
\<close>

theorem load_of_parsed_file:
  "(csv_files st (user_csv_path name) = None \<longrightarrow>
      load_user_data name st =
        Inr (Frame [(''Food'', 0), (''Travel'', 0), (''Loans'', 0), (''Entertainment'', 0),
                    (''Shopping'', 0), (''Others'', 0), (''Budget'', 0)])) \<and>
   (csv_files st (user_csv_path name) = Some file \<and> read_csv file = Inr (Csv rows) \<longrightarrow>
      (\<exists>rows'. load_user_data name st = Inr (Frame rows') \<and> length rows' = length rows \<and>
         (\<forall>i < length rows.
            fst (rows' ! i) = fst (rows ! i) \<and>
            snd (rows' ! i) =
              (case snd (rows ! i) of Num x \<Rightarrow> x | NonNumeric s \<Rightarrow> 0 | Missing \<Rightarrow> 0)))) \<and>
   (csv_files st (user_csv_path name) = Some file \<and> read_csv file = Inr (Csv_no_total cats) \<longrightarrow>
      load_user_data name st = Inr (NoTotal cats)) \<and>
   (csv_files st (user_csv_path name) = Some file \<and> read_csv file = Inl e \<longrightarrow>
      load_user_data name st = Inl e)"
  by (auto simp: load_user_data_def fresh_ledger_def split: cell.splits)

theorem load_of_parsed_file_witness:
  "csv_files edited_state (user_csv_path ''asha'') = None \<and>
   load_user_data ''asha'' edited_state =
     Inr (Frame [(''Food'', 0), (''Travel'', 0), (''Loans'', 0), (''Entertainment'', 0),
                 (''Shopping'', 0), (''Others'', 0), (''Budget'', 0)]) \<and>
   csv_files edited_state (user_csv_path ''ravi'') =
     Some (Table (Csv [(''Food'', Num 200), (''Travel'', NonNumeric ''n/a''),
                       (''Loans'', Missing), (''Budget'', Num 500)])) \<and>
   read_csv (Table (Csv [(''Food'', Num 200), (''Travel'', NonNumeric ''n/a''),
                         (''Loans'', Missing), (''Budget'', Num 500)])) =
     Inr (Csv [(''Food'', Num 200), (''Travel'', NonNumeric ''n/a''),
               (''Loans'', Missing), (''Budget'', Num 500)]) \<and>
   load_user_data ''ravi'' edited_state =
     Inr (Frame [(''Food'', 200), (''Travel'', 0), (''Loans'', 0), (''Budget'', 500)]) \<and>
   csv_files edited_state (user_csv_path ''old'') =
     Some (Table (Csv_no_total [''Food'', ''Budget''])) \<and>
   load_user_data ''old'' edited_state = Inr (NoTotal [''Food'', ''Budget'']) \<and>
   csv_files edited_state (user_csv_path ''meera'') = Some Empty_file \<and>
   read_csv Empty_file = Inl EmptyDataError \<and>
   load_user_data ''meera'' edited_state = Inl EmptyDataError"
  using load_of_parsed_file [of edited_state "''asha''"]
    load_of_parsed_file [of edited_state "''ravi''"
      "Table (Csv [(''Food'', Num 200), (''Travel'', NonNumeric ''n/a''), (''Loans'', Missing),
                   (''Budget'', Num 500)])"
      "[(''Food'', Num 200), (''Travel'', NonNumeric ''n/a''), (''Loans'', Missing),
        (''Budget'', Num 500)]"]
    load_of_parsed_file [of edited_state "''old''"
      "Table (Csv_no_total [''Food'', ''Budget''])" _ "[''Food'', ''Budget'']"]
    load_of_parsed_file [of edited_state "''meera''" Empty_file _ _ EmptyDataError]
  by (simp add: edited_state_def load_user_data_def user_csv_path_def path_join_def
        DATA_FOLDER_def)

section \<open>Report writer\<close>

lemma load_user_data_reports [simp]:
  "load_user_data name (st\<lparr>report_files := f\<rparr>) = load_user_data name st"
  by (simp add: load_user_data_def)

lemma save_user_data_reports [simp]:
  "report_files (save_user_data name df st) = report_files st"
  by (simp add: save_user_data_def)

text \<open>
  Claim C7. \<open>ensure_monthly_report_exists\<close> leaves the files as they are when the
  report exists; when it does not and the saved budget \<open>b\<close> is positive it creates the
  report as the three header lines (title, budget, column heads); when it does not and
  \<open>b\<close> is 0 or less it creates nothing. A second call after a completed one changes
  nothing.
\<close>

theorem ensure_creates_iff:
  "(report_files st (report_file_path name dt) \<noteq> None \<longrightarrow>
      ensure_monthly_report_exists name dt st = Inr st) \<and>
   (report_files st (report_file_path name dt) = None \<and>
    load_user_data name st = Inr df \<and> budget_value df = Inr b \<and> b > 0 \<longrightarrow>
      ensure_monthly_report_exists name dt st =
        Inr (st\<lparr>report_files := (report_files st)
               (report_file_path name dt \<mapsto>
                  [TitleLine name (title_month dt), BudgetLine b, ColumnsLine])\<rparr>)) \<and>
   (report_files st (report_file_path name dt) = None \<and>
    load_user_data name st = Inr df \<and> budget_value df = Inr b \<and> b \<le> 0 \<longrightarrow>
      ensure_monthly_report_exists name dt st = Inr st) \<and>
   (ensure_monthly_report_exists name dt st = Inr st' \<longrightarrow>
      ensure_monthly_report_exists name dt st' = Inr st')"
  by (auto simp: ensure_monthly_report_exists_def Let_def report_header_def
           split: sum.splits if_splits)

theorem ensure_creates_iff_witness:
  "report_files november_state (report_file_path ''asha'' mid_november) \<noteq> None \<and>
   ensure_monthly_report_exists ''asha'' mid_november november_state = Inr november_state \<and>
   report_files november_state (report_file_path ''asha'' first_december) = None \<and>
   load_user_data ''asha'' november_state =
     Inr (Frame [(''Food'', 1050), (''Travel'', 100), (''Budget'', 1000)]) \<and>
   budget_value (Frame [(''Food'', 1050), (''Travel'', 100), (''Budget'', 1000)]) = Inr 1000 \<and>
   ensure_monthly_report_exists ''asha'' first_december november_state =
     Inr (november_state\<lparr>report_files := (report_files november_state)
            (report_file_path ''asha'' first_december \<mapsto>
               [TitleLine ''asha'' ''December 2025'', BudgetLine 1000, ColumnsLine])\<rparr>) \<and>
   report_files no_files (report_file_path ''asha'' mid_november) = None \<and>
   load_user_data ''asha'' no_files = Inr (Frame fresh_ledger) \<and>
   budget_value (Frame fresh_ledger) = Inr 0 \<and>
   ensure_monthly_report_exists ''asha'' mid_november no_files = Inr no_files"
  using ensure_creates_iff
      [of november_state "''asha''" mid_november
          "Frame [(''Food'', 1050), (''Travel'', 100), (''Budget'', 1000)]" 1000 november_state]
    ensure_creates_iff
      [of november_state "''asha''" first_december
          "Frame [(''Food'', 1050), (''Travel'', 100), (''Budget'', 1000)]" 1000 november_state]
    ensure_creates_iff [of no_files "''asha''" mid_november "Frame fresh_ledger" 0 no_files]
  by (simp add: november_state_def no_files_def mid_november_def first_december_def
        path_defs load_user_data_def fresh_ledger_def)

text \<open>
  Claim C10. When the saved budget is 0 (or less), \<open>append_expense_to_report\<close>
  completes and the report of the month then holds its former content, none when the file
  did not exist, followed by exactly the one expense line: a report that did not exist is
  created without header lines.
\<close>

theorem append_without_budget:
  "load_user_data name st = Inr df \<and> budget_value df = Inr b \<and> b \<le> 0 \<longrightarrow>
     (\<exists>st'. append_expense_to_report name category amount dt st = Inr st' \<and>
        report_files st' (report_file_path name dt) =
          Some ((case report_files st (report_file_path name dt) of
                   None \<Rightarrow> [] | Some old \<Rightarrow> old) @
                [ExpenseLine (timestamp dt) category amount]))"
  by (auto simp: append_expense_to_report_def ensure_monthly_report_exists_def Let_def
        append_lines_def split: option.splits)

theorem append_without_budget_witness:
  "load_user_data ''asha'' no_files = Inr (Frame fresh_ledger) \<and>
   budget_value (Frame fresh_ledger) = Inr 0 \<and>
   report_files no_files (report_file_path ''asha'' mid_november) = None \<and>
   (\<exists>st'. append_expense_to_report ''asha'' ''Food'' 120 mid_november no_files = Inr st' \<and>
      report_files st' ''monthly_reports/asha_November_2025.txt'' =
        Some [ExpenseLine ''14-11-2025 09:30'' ''Food'' 120])"
  using append_without_budget
      [of "''asha''" no_files "Frame fresh_ledger" 0 "''Food''" 120 mid_november]
  by (simp add: no_files_def mid_november_def path_defs load_user_data_def fresh_ledger_def)

section \<open>Reports are extended by every run that updates no budget\<close>

lemma reports_extended_refl: "reports_extended st st"
  by (simp add: reports_extended_def)

lemma reports_extended_trans:
  "reports_extended a b \<Longrightarrow> reports_extended b c \<Longrightarrow> reports_extended a c"
  unfolding reports_extended_def by (meson prefix_order.trans)

lemma reports_extended_same:
  "report_files st' = report_files st \<Longrightarrow> reports_extended st st'"
  by (simp add: reports_extended_def)

lemma ensure_extends:
  "ensure_monthly_report_exists name dt st = Inr st' \<Longrightarrow> reports_extended st st'"
  by (auto simp: ensure_monthly_report_exists_def Let_def reports_extended_def
           split: sum.splits if_splits)

lemma append_lines_extends: "reports_extended st (append_lines rpt ls st)"
  by (auto simp: append_lines_def reports_extended_def)

lemma append_expense_extends:
  assumes "append_expense_to_report name category amount dt st = Inr st'"
  shows "reports_extended st st'"
proof -
  from assms obtain st1 where e: "ensure_monthly_report_exists name dt st = Inr st1"
    and s: "st' = append_lines (report_file_path name dt)
                    [ExpenseLine (timestamp dt) category amount] st1"
    by (auto simp: append_expense_to_report_def Let_def split: sum.splits)
  show ?thesis
    using ensure_extends [OF e] append_lines_extends s reports_extended_trans by blast
qed

lemma finalize_extends:
  "finalize_month_report name df dt st = Inr st' \<Longrightarrow> reports_extended st st'"
  by (auto simp: finalize_month_report_def Let_def append_lines_extends split: sum.splits)

lemma month_handling_extends:
  assumes "month_handling name dt df st = Inr (rows', b, st', msgs)"
  shows "reports_extended st st'"
proof -
  from assms obtain rows where df: "df = Frame rows"
    by (cases df) (auto simp: month_handling_def Let_def)
  from assms df obtain st1 where
    e: "(if b > 0 then ensure_monthly_report_exists name dt st else Inr st) = Inr st1"
    and bv: "budget_value (Frame rows) = Inr b"
    by (auto simp: month_handling_def Let_def split: sum.splits if_splits)
  have 1: "reports_extended st st1"
    using e ensure_extends reports_extended_refl by (auto split: if_splits)
  show ?thesis
  proof (cases "map_option strip (reset_files st (reset_file_path name)) \<noteq> Some (month_key dt)
                \<and> day dt = 1")
    case False
    with assms df bv e have "st' = st1"
      by (auto simp: month_handling_def Let_def simp del: budget_value.simps
               split: sum.splits if_splits)
    with 1 show ?thesis by simp
  next
    case True
    with assms df bv e obtain st2 where
      f: "finalize_month_report name (Frame rows) (minus_one_day (replace_day dt 1)) st1 = Inr st2"
      and r: "report_files st' = report_files st2"
      by (auto simp: month_handling_def Let_def simp del: budget_value.simps
               split: sum.splits if_splits)
    from finalize_extends [OF f] 1 r show ?thesis
      using reports_extended_trans reports_extended_same by blast
  qed
qed

lemma save_budget_extends:
  assumes "save_budget_branch name dt v pressed rows st = Inr (st', msgs)"
  shows "reports_extended st st'"
proof (cases pressed)
  case False
  with assms show ?thesis by (simp add: save_budget_branch_def reports_extended_refl)
next
  case True
  with assms have e: "ensure_monthly_report_exists name dt
                        (save_user_data name (Frame (set_budget v rows)) st) = Inr st'"
    by (auto simp: save_budget_branch_def Let_def split: sum.splits)
  have "reports_extended st (save_user_data name (Frame (set_budget v rows)) st)"
    by (simp add: reports_extended_same)
  with ensure_extends [OF e] show ?thesis using reports_extended_trans by blast
qed

lemma add_expense_extends:
  assumes "add_expense_branch name dt category amount rows st = Inr (st', msgs)"
  shows "reports_extended st st'"
proof -
  let ?st1 = "save_user_data name (Frame (add_to_category category amount rows)) st"
  from assms obtain st2 where e: "ensure_monthly_report_exists name dt ?st1 = Inr st2"
    and a: "append_expense_to_report name category amount dt st2 = Inr st'"
    by (auto simp: add_expense_branch_def Let_def split: sum.splits)
  have "reports_extended st ?st1" by (simp add: reports_extended_same)
  with ensure_extends [OF e] append_expense_extends [OF a] show ?thesis
    using reports_extended_trans by blast
qed

lemma menu_extends:
  assumes "menu_branch name dt m rows st = Inr (st', msgs)"
    and "\<forall>v. m \<noteq> Modify_Budget v True"
  shows "reports_extended st st'"
proof (cases m)
  case View_Summary
  with assms show ?thesis
    by (auto simp: menu_branch_def reports_extended_refl split: sum.splits)
next
  case (Add_Expense c a pressed)
  with assms show ?thesis
    by (cases pressed) (auto simp: menu_branch_def reports_extended_refl add_expense_extends)
next
  case (Modify_Budget v pressed)
  with assms show ?thesis
    by (cases pressed) (auto simp: menu_branch_def reports_extended_refl)
next
  case View_Reports
  with assms show ?thesis by (auto simp: menu_branch_def ensure_extends split: sum.splits)
next
  case View_Charts
  with assms show ?thesis by (auto simp: menu_branch_def reports_extended_refl)
qed

lemma run_script_extends:
  assumes "run_script name dt inp st = Inr (st', msgs)"
    and "\<forall>v. chosen inp \<noteq> Modify_Budget v True"
  shows "reports_extended st st'"
proof -
  let ?st = "st\<lparr>users := insert name (users st)\<rparr>"
  have 0: "reports_extended st ?st" by (simp add: reports_extended_same)
  from assms(1) obtain df rows b st1 msgs1 where
    l: "load_user_data name ?st = Inr df"
    and m: "month_handling name dt df ?st = Inr (rows, b, st1, msgs1)"
    by (auto simp: run_script_def Let_def split: sum.splits)
  note 1 = month_handling_extends [OF m]
  show ?thesis
  proof (cases "name \<notin> users st \<and> b = 0")
    case True
    with assms(1) l m obtain msgs2 where
      "save_budget_branch name dt (new_budget inp) (save_budget_pressed inp) rows st1 =
         Inr (st', msgs2)"
      by (auto simp: run_script_def Let_def split: sum.splits)
    from save_budget_extends [OF this] 0 1 show ?thesis
      using reports_extended_trans by blast
  next
    case False
    with assms(1) l m obtain st2 msgs2 where
      c: "menu_branch name dt (chosen inp) rows st1 = Inr (st2, msgs2)"
      and r: "report_files st' = report_files st2"
      unfolding run_script_def Let_def
      by (simp split: sum.splits prod.splits if_splits) auto
    from menu_extends [OF c assms(2)] 0 1 r show ?thesis
      using reports_extended_trans reports_extended_same by blast
  qed
qed

lemma run_script_extends_by_append:
  assumes "run_script name dt inp st = Inr (st', msgs)"
    and "\<forall>v. chosen inp \<noteq> Modify_Budget v True"
    and "report_files st p = Some old"
  shows "\<exists>new. report_files st' p = Some (old @ new)"
  using run_script_extends [OF assms(1,2)] assms(3)
  by (auto simp: reports_extended_def prefix_def)

text \<open>
  What the update of the budget leaves of an existing report of the month: the title, the
  new budget line and the third line of the old content. Every line after the third is
  lost.
\<close>

lemma modify_budget_report:
  assumes "report_files st (report_file_path name dt) = Some old"
  shows "report_files (fst (modify_budget_branch name dt v rows st)) (report_file_path name dt) =
           Some ([TitleLine name (title_month dt), BudgetLine v] @
                 (if length old > 2 then [old ! 2] else []))"
  using assms by (simp add: modify_budget_branch_def Let_def)

lemma modify_budget_cuts_report:
  assumes "report_files st (report_file_path name dt) = Some old" and "length old > 3"
  shows "\<exists>new. report_files (fst (modify_budget_branch name dt v rows st))
                  (report_file_path name dt) = Some new \<and>
               length new = 3 \<and> length new < length old"
  using assms by (simp add: modify_budget_report)

text \<open>
  Claim C3. The claim is what the program attempts: the update of the budget reads the
  whole report in order to write it back under the new budget line, but line 323 writes
  back only the third line of what it read, so every expense line is lost. Here the
  November report of five lines, two of them expense lines, is left with three lines by
  raising the budget to 2000.
\<close>

theorem modify_budget_loses_expense_lines:
  "report_files november_state ''monthly_reports/asha_November_2025.txt'' =
     Some [TitleLine ''asha'' ''November 2025'', BudgetLine 1000, ColumnsLine,
           ExpenseLine ''03-11-2025 19:02'' ''Food'' 1050,
           ExpenseLine ''09-11-2025 07:45'' ''Travel'' 100] \<and>
   report_files
     (fst (modify_budget_branch ''asha'' mid_november 2000
             [(''Food'', 1050), (''Travel'', 100), (''Budget'', 1000)] november_state))
     ''monthly_reports/asha_November_2025.txt'' =
     Some [TitleLine ''asha'' ''November 2025'', BudgetLine 2000, ColumnsLine]"
  by (simp add: november_state_def november_report_def modify_budget_branch_def Let_def
        mid_november_def path_defs)

lemma strip_marker: "strip ''2025-11'' = ''2025-11''"
  by (simp add: strip_def is_space_def)

text \<open>
  The same loss in a whole run of the script, and the run that adds an expense to the
  same report for comparison: it keeps every line.
\<close>

lemma run_raise_budget:
  "\<exists>st' msgs. run_script ''asha'' mid_november raise_budget november_state = Inr (st', msgs) \<and>
     report_files st' ''monthly_reports/asha_November_2025.txt'' =
       Some [TitleLine ''asha'' ''November 2025'', BudgetLine 2000, ColumnsLine]"
  by (simp add: script_defs november_state_def november_report_def mid_november_def
        raise_budget_def path_defs strip_marker)

lemma run_add_food:
  "\<exists>st' msgs. run_script ''asha'' mid_november add_food november_state = Inr (st', msgs) \<and>
     report_files st' ''monthly_reports/asha_November_2025.txt'' =
       Some (november_report @ [ExpenseLine ''14-11-2025 09:30'' ''Food'' 50])"
  by (simp add: script_defs november_state_def mid_november_def add_food_def path_defs
        strip_marker)

section \<open>Status tiers\<close>

lemma status_text_tier: "status_text p = report_status (tier_of p)"
  by (simp add: status_text_def tier_of_def)

text \<open>
  Claim C6, as stated, fails for the summary on screen: with a budget of 0 the
  percentage is 0, which the claim places in the tier of a budget kept, but
  \<open>show_budget_summary\<close> shows no tier at all, only the note that no budget is set.
\<close>

theorem summary_tier_counterexample:
  "compute_budget_status (Frame fresh_ledger) = Inr (0, 0, 0, 0) \<and>
   summary_message (tier_of 0) = St_success ''You're within your budget'' \<and>
   show_budget_summary (Frame fresh_ledger) =
     Inr [St_write ''Budget'' 0, St_write ''Spent'' 0, St_write ''Remaining'' 0,
          St_write ''Used'' 0, St_info ''No budget set. Please set a budget (new users).'']"
  by (simp add: show_budget_summary_def fresh_ledger_def tier_of_def)

text \<open>
  Claim C6, amended. The closing block that \<open>finalize_month_report\<close> appends carries, for
  every percentage, the status of its tier: exceeded from 100, near the limit from 80 to
  below 100, within budget otherwise; 100 itself is exceeded and 80 itself is near the
  limit. The summary on screen ends with the message of the same tier when the budget is
  positive, and with the note that no budget is set when the budget is 0 or less.
\<close>

theorem status_tiers:
  "tier_of 100 = Exceeded \<and> tier_of 80 = Near_limit \<and>
   (compute_budget_status df = Inr (b, t, r, p) \<longrightarrow>
      (\<exists>st'. finalize_month_report name df dt st = Inr st' \<and>
         report_files st' (report_file_path name dt) =
           Some ((case report_files st (report_file_path name dt) of
                    None \<Rightarrow> [] | Some old \<Rightarrow> old) @
                 [BlankLine, SummaryHeadLine, TotalExpensesLine t, RemainingLine r,
                  PercentUsedLine p, StatusLine (report_status (tier_of p)),
                  ClosedOnLine (closed_on dt)]))) \<and>
   (compute_budget_status df = Inr (b, t, r, p) \<and> b > 0 \<longrightarrow>
      show_budget_summary df =
        Inr [St_write ''Budget'' b, St_write ''Spent'' t, St_write ''Remaining'' r,
             St_write ''Used'' p, summary_message (tier_of p)]) \<and>
   (compute_budget_status df = Inr (b, t, r, p) \<and> b \<le> 0 \<longrightarrow>
      show_budget_summary df =
        Inr [St_write ''Budget'' b, St_write ''Spent'' t, St_write ''Remaining'' r,
             St_write ''Used'' p, St_info ''No budget set. Please set a budget (new users).''])"
proof (intro conjI impI)
  show "tier_of 100 = Exceeded" by (simp add: tier_of_def)
  show "tier_of 80 = Near_limit" by (simp add: tier_of_def)
next
  assume "compute_budget_status df = Inr (b, t, r, p)"
  then show "\<exists>st'. finalize_month_report name df dt st = Inr st' \<and>
         report_files st' (report_file_path name dt) =
           Some ((case report_files st (report_file_path name dt) of
                    None \<Rightarrow> [] | Some old \<Rightarrow> old) @
                 [BlankLine, SummaryHeadLine, TotalExpensesLine t, RemainingLine r,
                  PercentUsedLine p, StatusLine (report_status (tier_of p)),
                  ClosedOnLine (closed_on dt)])"
    by (simp add: finalize_month_report_def Let_def append_lines_def summary_block_def
          status_text_tier)
next
  assume "compute_budget_status df = Inr (b, t, r, p) \<and> b > 0"
  then show "show_budget_summary df =
        Inr [St_write ''Budget'' b, St_write ''Spent'' t, St_write ''Remaining'' r,
             St_write ''Used'' p, summary_message (tier_of p)]"
    by (simp add: show_budget_summary_def tier_of_def)
next
  assume "compute_budget_status df = Inr (b, t, r, p) \<and> b \<le> 0"
  then show "show_budget_summary df =
        Inr [St_write ''Budget'' b, St_write ''Spent'' t, St_write ''Remaining'' r,
             St_write ''Used'' p, St_info ''No budget set. Please set a budget (new users).'']"
    by (simp add: show_budget_summary_def)
qed

theorem status_tiers_witness:
  "compute_budget_status (Frame [(''Food'', 850), (''Budget'', 1000)]) = Inr (1000, 850, 150, 85) \<and>
   (\<exists>st'. finalize_month_report ''asha'' (Frame [(''Food'', 850), (''Budget'', 1000)])
             mid_november no_files = Inr st' \<and>
      report_files st' ''monthly_reports/asha_November_2025.txt'' =
        Some [BlankLine, SummaryHeadLine, TotalExpensesLine 850, RemainingLine 150,
              PercentUsedLine 85, StatusLine ''Close to Budget'',
              ClosedOnLine ''14-11-2025'']) \<and>
   show_budget_summary (Frame [(''Food'', 850), (''Budget'', 1000)]) =
     Inr [St_write ''Budget'' 1000, St_write ''Spent'' 850, St_write ''Remaining'' 150,
          St_write ''Used'' 85, St_warning ''Budget usage >= 80%''] \<and>
   compute_budget_status (Frame [(''Food'', 850), (''Budget'', 0)]) = Inr (0, 850, - 850, 0) \<and>
   show_budget_summary (Frame [(''Food'', 850), (''Budget'', 0)]) =
     Inr [St_write ''Budget'' 0, St_write ''Spent'' 850, St_write ''Remaining'' (- 850),
          St_write ''Used'' 0, St_info ''No budget set. Please set a budget (new users).'']"
proof -
  have c: "compute_budget_status (Frame [(''Food'', 850), (''Budget'', 1000)]) =
             Inr (1000, 850, 150, 85)"
    by (simp add: py_div_def)
  have z: "compute_budget_status (Frame [(''Food'', 850), (''Budget'', 0)]) =
             Inr (0, 850, - 850, 0)"
    by simp
  have t: "tier_of 85 = Near_limit" by (simp add: tier_of_def)
  have p: "report_file_path ''asha'' mid_november = ''monthly_reports/asha_November_2025.txt''"
    "closed_on mid_november = ''14-11-2025''"
    by (simp_all add: mid_november_def path_defs)
  have n: "report_files no_files ''monthly_reports/asha_November_2025.txt'' = None"
    by (simp add: no_files_def)
  from c z t p n
    status_tiers [of "Frame [(''Food'', 850), (''Budget'', 1000)]" 1000 850 150 85
                     "''asha''" mid_november no_files]
    status_tiers [of "Frame [(''Food'', 850), (''Budget'', 0)]" 0 850 "- 850" 0]
  show ?thesis by simp
qed

section \<open>Month rollover\<close>

lemma budget_value_Frame: "budget_value df = Inr b \<Longrightarrow> \<exists>rows. df = Frame rows"
  by (cases df) auto

lemma load_after_save [simp]:
  "load_user_data name (save_user_data name (Frame rows) st) = Inr (Frame rows)"
proof -
  have "map (\<lambda>r. (fst r, fillna 0 (to_numeric_coerce (snd r))))
          (map (\<lambda>r. (fst r, Num (snd r))) rows) = rows"
    by (induction rows) auto
  then show ?thesis by (simp add: load_user_data_def save_user_data_def)
qed

lemma load_user_data_markers [simp]:
  "load_user_data name (st\<lparr>reset_files := f\<rparr>) = load_user_data name st"
  by (simp add: load_user_data_def)

lemma load_user_data_append_lines [simp]:
  "load_user_data name (append_lines rpt ls st) = load_user_data name st"
  by (simp add: append_lines_def)

lemma budget_value_reset:
  "budget_value (Frame (reset_expenses rows)) = budget_value (Frame rows)"
proof -
  have "filter (\<lambda>r. fst r = ''Budget'') (reset_expenses rows) =
        filter (\<lambda>r. fst r = ''Budget'') rows"
    unfolding reset_expenses_def by (induction rows) auto
  then show ?thesis by simp
qed

lemma reset_expenses_rows:
  "list_all2 (\<lambda>r r'. fst r' = fst r \<and> snd r' = (if fst r = ''Budget'' then snd r else 0))
     rows (reset_expenses rows)"
  unfolding reset_expenses_def by (induction rows) auto

lemma ensure_result:
  assumes "load_user_data name st = Inr df" and "budget_value df = Inr b"
  shows "ensure_monthly_report_exists name dt st =
           Inr (if report_files st (report_file_path name dt) = None \<and> b > 0
                then st\<lparr>report_files := (report_files st)
                          (report_file_path name dt \<mapsto> report_header name dt b)\<rparr>
                else st)"
  using assms by (simp add: ensure_monthly_report_exists_def Let_def)

subsection \<open>The marker written by a reset is read back unchanged\<close>

lemma digit_char_no_space: "d < 10 \<Longrightarrow> \<not> is_space (digit_char d)"
proof -
  assume "d < 10"
  then have "d = 0 \<or> d = 1 \<or> d = 2 \<or> d = 3 \<or> d = 4 \<or> d = 5 \<or> d = 6 \<or> d = 7 \<or> d = 8 \<or> d = 9"
    by arith
  then show ?thesis
    by (elim disjE) (simp_all add: digit_char_def is_space_def)
qed

lemma string_of_nat_no_space: "\<forall>c\<in>set (string_of_nat n). \<not> is_space c"
proof (induction n rule: string_of_nat.induct)
  case (1 n)
  show ?case
  proof (cases "n < 10")
    case True
    then show ?thesis by (subst string_of_nat.simps) (simp add: digit_char_no_space)
  next
    case False
    with "1" have "\<forall>c\<in>set (string_of_nat (n div 10)). \<not> is_space c" by simp
    moreover have "\<not> is_space (digit_char (n mod 10))" by (simp add: digit_char_no_space)
    ultimately show ?thesis using False by (subst string_of_nat.simps) simp
  qed
qed

lemma month_key_no_space: "\<forall>c\<in>set (month_key dt). \<not> is_space c"
proof -
  have "\<not> is_space CHR ''-''" "\<not> is_space CHR ''0''" by (simp_all add: is_space_def)
  then show ?thesis
    using string_of_nat_no_space [of "year dt"] string_of_nat_no_space [of "month dt"]
    by (auto simp: month_key_def two_digits_def)
qed

lemma dropWhile_none: "\<forall>c\<in>set s. \<not> P c \<Longrightarrow> dropWhile P s = s"
  by (cases s) auto

lemma strip_month_key: "strip (month_key dt) = month_key dt"
  using month_key_no_space [of dt] by (simp add: strip_def dropWhile_none)

subsection \<open>The report of the previous month is another file\<close>

lemma month_name_neighbours:
  assumes "2 \<le> m" "m \<le> 12"
  shows "month_name (m - 1) \<noteq> month_name m"
proof -
  from assms have "m = 2 \<or> m = 3 \<or> m = 4 \<or> m = 5 \<or> m = 6 \<or> m = 7 \<or> m = 8 \<or> m = 9 \<or>
                   m = 10 \<or> m = 11 \<or> m = 12"
    by arith
  then show ?thesis by (elim disjE) (simp_all add: month_name_def)
qed

lemma previous_report_path:
  assumes "1 \<le> month dt" "month dt \<le> 12"
  shows "report_file_path name (minus_one_day (replace_day dt 1)) \<noteq> report_file_path name dt"
proof (cases "month dt = 1")
  case True
  then show ?thesis
    by (simp add: report_file_path_def path_join_def month_label_def minus_one_day_def
          replace_day_def month_name_def)
next
  case False
  with assms have "month_name (month dt - 1) \<noteq> month_name (month dt)"
    by (intro month_name_neighbours) auto
  with False assms show ?thesis
    by (simp add: report_file_path_def path_join_def month_label_def minus_one_day_def
          replace_day_def)
qed

subsection \<open>What the month handling returns\<close>

lemma month_handling_unfold:
  assumes "budget_value (Frame rows) = Inr b"
    and "(if b > 0 then ensure_monthly_report_exists name dt st else Inr st) = Inr st1"
  shows "month_handling name dt (Frame rows) st =
           (if map_option strip (reset_files st (reset_file_path name)) \<noteq> Some (month_key dt)
               \<and> day dt = 1
            then (case finalize_month_report name (Frame rows)
                         (minus_one_day (replace_day dt 1)) st1 of
                    Inl e \<Rightarrow> Inl e
                  | Inr st2 \<Rightarrow>
                      Inr (reset_expenses rows, b,
                           (save_user_data name (Frame (reset_expenses rows)) st2)
                             \<lparr>reset_files :=
                               (reset_files (save_user_data name (Frame (reset_expenses rows)) st2))
                               (reset_file_path name \<mapsto> month_key dt)\<rparr>,
                           [rollover_warning]))
            else Inr (rows, b, st1, []))"
  unfolding month_handling_def Let_def
  by (simp only: dataframe.case assms sum.case)

lemma ensure_when_budget:
  assumes "load_user_data name st = Inr df" and "budget_value df = Inr b"
  shows "(if b > 0 then ensure_monthly_report_exists name dt st else Inr st) =
           Inr (if b > 0 \<and> report_files st (report_file_path name dt) = None
                then st\<lparr>report_files := (report_files st)
                          (report_file_path name dt \<mapsto> report_header name dt b)\<rparr>
                else st)"
  by (simp add: ensure_result [OF assms])

lemma month_handling_idle:
  assumes "load_user_data name st = Inr (Frame rows)"
    and "budget_value (Frame rows) = Inr b"
    and "\<not> (map_option strip (reset_files st (reset_file_path name)) \<noteq> Some (month_key dt)
            \<and> day dt = 1)"
  shows "month_handling name dt (Frame rows) st =
           Inr (rows, b,
                if b > 0 \<and> report_files st (report_file_path name dt) = None
                then st\<lparr>report_files := (report_files st)
                          (report_file_path name dt \<mapsto> report_header name dt b)\<rparr>
                else st, [])"
proof -
  note e = ensure_when_budget [OF assms(1,2), of dt]
  show ?thesis
    by (simp only: month_handling_unfold [OF assms(2) e] assms(3) if_False)
qed

lemma finalize_result:
  assumes "budget_value (Frame rows) = Inr b"
  shows "finalize_month_report name (Frame rows) dt st =
           Inr (append_lines (report_file_path name dt)
                  (summary_block (\<Sum>r\<leftarrow>rows. if fst r = ''Budget'' then 0 else snd r)
                     (b - (\<Sum>r\<leftarrow>rows. if fst r = ''Budget'' then 0 else snd r))
                     (if b > 0
                      then (\<Sum>r\<leftarrow>rows. if fst r = ''Budget'' then 0 else snd r) / b * 100
                      else 0) dt) st)"
  unfolding finalize_month_report_def Let_def
  by (simp only: compute_budget_status_value [OF assms] sum.case prod.case)

lemma month_handling_fire:
  assumes "load_user_data name st = Inr (Frame rows)"
    and "budget_value (Frame rows) = Inr b"
    and "map_option strip (reset_files st (reset_file_path name)) \<noteq> Some (month_key dt)"
    and "day dt = 1"
  shows "month_handling name dt (Frame rows) st =
           Inr (reset_expenses rows, b,
                (save_user_data name (Frame (reset_expenses rows))
                   (append_lines (report_file_path name (minus_one_day (replace_day dt 1)))
                      (summary_block (\<Sum>r\<leftarrow>rows. if fst r = ''Budget'' then 0 else snd r)
                         (b - (\<Sum>r\<leftarrow>rows. if fst r = ''Budget'' then 0 else snd r))
                         (if b > 0
                          then (\<Sum>r\<leftarrow>rows. if fst r = ''Budget'' then 0 else snd r) / b * 100
                          else 0)
                         (minus_one_day (replace_day dt 1)))
                      (if b > 0 \<and> report_files st (report_file_path name dt) = None
                       then st\<lparr>report_files := (report_files st)
                                 (report_file_path name dt \<mapsto> report_header name dt b)\<rparr>
                       else st)))
                \<lparr>reset_files :=
                   (reset_files st)(reset_file_path name \<mapsto> month_key dt)\<rparr>,
                [rollover_warning])"
proof -
  note e = ensure_when_budget [OF assms(1,2), of dt]
  have c: "map_option strip (reset_files st (reset_file_path name)) \<noteq> Some (month_key dt)
           \<and> day dt = 1"
    using assms(3,4) by simp
  have r: "reset_files (save_user_data name df (append_lines p ls s)) = reset_files s"
    for df p ls s
    by (simp add: save_user_data_def append_lines_def)
  have r': "reset_files (if P then st\<lparr>report_files := f\<rparr> else st) = reset_files st" for P f
    by simp
  show ?thesis
    by (simp only: month_handling_unfold [OF assms(2) e] c if_True
          finalize_result [OF assms(2)] sum.case r r')
       (simp only: simp_thms if_True)
qed

lemma report_kept_by_rollover:
  assumes "b > 0"
  shows "report_files
           ((save_user_data name df
              (append_lines p ls
                 (if b > 0 \<and> report_files st q = None
                  then st\<lparr>report_files := (report_files st)(q \<mapsto> h)\<rparr> else st)))
            \<lparr>reset_files := f\<rparr>) q \<noteq> None"
  using assms by (auto simp: save_user_data_def append_lines_def)

text \<open>
  Claim C1. Let the saved ledger load and have a budget row, so that the run reaches the
  month handling. The handling shows the rollover warning if and only if the marker read from
  the marker file (none, when there is no file) differs from the key of the current month
  and the day is 1. When it does, the ledger saved afterwards has the rows of before with
  every total outside \<^verbatim>\<open>Budget\<close> set to 0 and the \<^verbatim>\<open>Budget\<close> totals kept, the
  marker file holds the key of the current month, and the month handling of a further run
  at the same date shows nothing and leaves every file as it is. When it does not, the
  ledger and the marker stay as they are and at most the header of the report of the
  current month is created.
\<close>

theorem rollover_fires_iff:
  assumes "load_user_data name st = Inr df" and "budget_value df = Inr b"
  shows "\<exists>rows rows' st' msgs.
           load_user_data name st = Inr (Frame rows) \<and>
           month_handling name dt (Frame rows) st = Inr (rows', b, st', msgs) \<and>
           (rollover_warning \<in> set msgs \<longleftrightarrow>
              map_option strip (reset_files st (reset_file_path name)) \<noteq> Some (month_key dt)
              \<and> day dt = 1) \<and>
           (rollover_warning \<in> set msgs \<longrightarrow>
              load_user_data name st' = Inr (Frame rows') \<and>
              list_all2 (\<lambda>r r'. fst r' = fst r \<and>
                                  snd r' = (if fst r = ''Budget'' then snd r else 0)) rows rows' \<and>
              reset_files st' (reset_file_path name) = Some (month_key dt) \<and>
              month_handling name dt (Frame rows') st' = Inr (rows', b, st', [])) \<and>
           (rollover_warning \<notin> set msgs \<longrightarrow>
              rows' = rows \<and> csv_files st' = csv_files st \<and> reset_files st' = reset_files st \<and>
              (st' = st \<or>
               st' = st\<lparr>report_files := (report_files st)
                          (report_file_path name dt \<mapsto>
                             [TitleLine name (title_month dt), BudgetLine b, ColumnsLine])\<rparr>))"
proof -
  from budget_value_Frame [OF assms(2)] obtain rows where df: "df = Frame rows" by blast
  with assms have l: "load_user_data name st = Inr (Frame rows)"
    and bv: "budget_value (Frame rows) = Inr b" by simp_all
  show ?thesis
  proof (cases "map_option strip (reset_files st (reset_file_path name)) \<noteq> Some (month_key dt)
                \<and> day dt = 1")
    case False
    let ?st1 = "if b > 0 \<and> report_files st (report_file_path name dt) = None
                then st\<lparr>report_files := (report_files st)
                          (report_file_path name dt \<mapsto> report_header name dt b)\<rparr>
                else st"
    have m: "month_handling name dt (Frame rows) st = Inr (rows, b, ?st1, [])"
      by (rule month_handling_idle [OF l bv False])
    have s: "csv_files ?st1 = csv_files st" "reset_files ?st1 = reset_files st"
      "?st1 = st \<or> ?st1 = st\<lparr>report_files := (report_files st)
                          (report_file_path name dt \<mapsto>
                             [TitleLine name (title_month dt), BudgetLine b, ColumnsLine])\<rparr>"
      by (simp_all add: report_header_def)
    from l m s False show ?thesis
      by (intro exI [of _ rows] exI [of _ ?st1] exI [of _ "[]"]) (simp only: simp_thms list.set empty_iff not_False_eq_True)
  next
    case True
    let ?rows' = "reset_expenses rows"
    let ?st' = "(save_user_data name (Frame ?rows')
                   (append_lines (report_file_path name (minus_one_day (replace_day dt 1)))
                      (summary_block (\<Sum>r\<leftarrow>rows. if fst r = ''Budget'' then 0 else snd r)
                         (b - (\<Sum>r\<leftarrow>rows. if fst r = ''Budget'' then 0 else snd r))
                         (if b > 0
                          then (\<Sum>r\<leftarrow>rows. if fst r = ''Budget'' then 0 else snd r) / b * 100
                          else 0)
                         (minus_one_day (replace_day dt 1)))
                      (if b > 0 \<and> report_files st (report_file_path name dt) = None
                       then st\<lparr>report_files := (report_files st)
                                 (report_file_path name dt \<mapsto> report_header name dt b)\<rparr>
                       else st)))
                \<lparr>reset_files :=
                   (reset_files st)(reset_file_path name \<mapsto> month_key dt)\<rparr>"
    from True have c: "map_option strip (reset_files st (reset_file_path name)) \<noteq> Some (month_key dt)"
      and d: "day dt = 1" by simp_all
    have m: "month_handling name dt (Frame rows) st = Inr (?rows', b, ?st', [rollover_warning])"
      by (rule month_handling_fire [OF l bv c d])
    have l': "load_user_data name ?st' = Inr (Frame ?rows')" by simp
    have bv': "budget_value (Frame ?rows') = Inr b" using bv by (simp only: budget_value_reset)
    have mk: "reset_files ?st' (reset_file_path name) = Some (month_key dt)" by simp
    have n: "\<not> (map_option strip (reset_files ?st' (reset_file_path name)) \<noteq> Some (month_key dt)
                \<and> day dt = 1)"
      by (simp only: mk option.map strip_month_key) simp
    have k: "b > 0 \<Longrightarrow> report_files ?st' (report_file_path name dt) \<noteq> None"
      by (rule report_kept_by_rollover)
    have again: "month_handling name dt (Frame ?rows') ?st' = Inr (?rows', b, ?st', [])"
    proof (cases "b > 0")
      case True
      from k [OF True] have "\<not> (b > 0 \<and> report_files ?st' (report_file_path name dt) = None)"
        by blast
      then show ?thesis
        by (simp only: month_handling_idle [OF l' bv' n] if_False)
    next
      case False
      then have "\<not> (b > 0 \<and> report_files ?st' (report_file_path name dt) = None)"
        by blast
      then show ?thesis
        by (simp only: month_handling_idle [OF l' bv' n] if_False)
    qed
    have w: "rollover_warning \<in> set [rollover_warning]" by simp
    from l m l' mk again w True reset_expenses_rows [of rows] show ?thesis
      by (intro exI [of _ rows] exI [of _ ?rows'] exI [of _ ?st'] exI [of _ "[rollover_warning]"])
         (simp only: simp_thms)
  qed
qed

lemma strip_december: "strip ''2025-12'' = ''2025-12''"
  by (simp add: strip_def is_space_def)

theorem rollover_fires_iff_witness:
  "load_user_data ''asha'' november_state =
     Inr (Frame [(''Food'', 1050), (''Travel'', 100), (''Budget'', 1000)]) \<and>
   budget_value (Frame [(''Food'', 1050), (''Travel'', 100), (''Budget'', 1000)]) = Inr 1000 \<and>
   (\<exists>st' msgs.
      month_handling ''asha'' first_december
        (Frame [(''Food'', 1050), (''Travel'', 100), (''Budget'', 1000)]) november_state =
        Inr ([(''Food'', 0), (''Travel'', 0), (''Budget'', 1000)], 1000, st', msgs) \<and>
      rollover_warning \<in> set msgs \<and>
      load_user_data ''asha'' st' =
        Inr (Frame [(''Food'', 0), (''Travel'', 0), (''Budget'', 1000)]) \<and>
      reset_files st' ''last_reset/asha.txt'' = Some ''2025-12'' \<and>
      month_handling ''asha'' first_december
        (Frame [(''Food'', 0), (''Travel'', 0), (''Budget'', 1000)]) st' =
        Inr ([(''Food'', 0), (''Travel'', 0), (''Budget'', 1000)], 1000, st', [])) \<and>
   (\<exists>st' msgs.
      month_handling ''asha'' mid_november
        (Frame [(''Food'', 1050), (''Travel'', 100), (''Budget'', 1000)]) november_state =
        Inr ([(''Food'', 1050), (''Travel'', 100), (''Budget'', 1000)], 1000, st', msgs) \<and>
      rollover_warning \<notin> set msgs \<and>
      csv_files st' = csv_files november_state \<and>
      reset_files st' = reset_files november_state)"
proof -
  have l: "load_user_data ''asha'' november_state =
             Inr (Frame [(''Food'', 1050), (''Travel'', 100), (''Budget'', 1000)])"
    by (simp add: november_state_def load_user_data_def path_defs)
  have b: "budget_value (Frame [(''Food'', 1050), (''Travel'', 100), (''Budget'', 1000)]) =
             Inr 1000" by simp
  have c: "map_option strip (reset_files november_state (reset_file_path ''asha'')) \<noteq>
             Some (month_key first_december) \<and> day first_december = 1"
    by (simp add: november_state_def first_december_def path_defs strip_marker)
  have p: "reset_file_path ''asha'' = ''last_reset/asha.txt''"
    "month_key first_december = ''2025-12''"
    by (simp_all add: first_december_def path_defs)
  from rollover_fires_iff [OF l b, of first_december] obtain rows rows' st' msgs where
    1: "load_user_data ''asha'' november_state = Inr (Frame rows)"
    and 2: "month_handling ''asha'' first_december (Frame rows) november_state =
              Inr (rows', 1000, st', msgs)"
    and 3: "rollover_warning \<in> set msgs \<longleftrightarrow>
              map_option strip (reset_files november_state (reset_file_path ''asha'')) \<noteq>
                Some (month_key first_december) \<and> day first_december = 1"
    and 4: "rollover_warning \<in> set msgs \<longrightarrow>
              load_user_data ''asha'' st' = Inr (Frame rows') \<and>
              list_all2 (\<lambda>r r'. fst r' = fst r \<and>
                                  snd r' = (if fst r = ''Budget'' then snd r else 0)) rows rows' \<and>
              reset_files st' (reset_file_path ''asha'') = Some (month_key first_december) \<and>
              month_handling ''asha'' first_december (Frame rows') st' = Inr (rows', 1000, st', [])"
    by blast
  from 1 l have r: "rows = [(''Food'', 1050), (''Travel'', 100), (''Budget'', 1000)]" by simp
  from 3 c have w: "rollover_warning \<in> set msgs" by blast
  with 4 r have "rows' = [(''Food'', 0), (''Travel'', 0), (''Budget'', 1000)]"
    by (auto simp: list_all2_Cons1 prod_eq_iff)
  with 2 4 w r p b have fired:
    "\<exists>st' msgs.
      month_handling ''asha'' first_december
        (Frame [(''Food'', 1050), (''Travel'', 100), (''Budget'', 1000)]) november_state =
        Inr ([(''Food'', 0), (''Travel'', 0), (''Budget'', 1000)], 1000, st', msgs) \<and>
      rollover_warning \<in> set msgs \<and>
      load_user_data ''asha'' st' =
        Inr (Frame [(''Food'', 0), (''Travel'', 0), (''Budget'', 1000)]) \<and>
      reset_files st' ''last_reset/asha.txt'' = Some ''2025-12'' \<and>
      month_handling ''asha'' first_december
        (Frame [(''Food'', 0), (''Travel'', 0), (''Budget'', 1000)]) st' =
        Inr ([(''Food'', 0), (''Travel'', 0), (''Budget'', 1000)], 1000, st', [])"
    by auto
  have n: "\<not> (map_option strip (reset_files november_state (reset_file_path ''asha'')) \<noteq>
             Some (month_key mid_november) \<and> day mid_november = 1)"
    by (simp add: november_state_def mid_november_def path_defs strip_marker)
  from rollover_fires_iff [OF l b, of mid_november] obtain rows2 rows2' st2 msgs2 where
    i1: "load_user_data ''asha'' november_state = Inr (Frame rows2)"
    and i2: "month_handling ''asha'' mid_november (Frame rows2) november_state =
              Inr (rows2', 1000, st2, msgs2)"
    and i3: "rollover_warning \<in> set msgs2 \<longleftrightarrow>
              map_option strip (reset_files november_state (reset_file_path ''asha'')) \<noteq>
                Some (month_key mid_november) \<and> day mid_november = 1"
    and i4: "rollover_warning \<notin> set msgs2 \<longrightarrow>
              rows2' = rows2 \<and> csv_files st2 = csv_files november_state \<and>
              reset_files st2 = reset_files november_state"
    by blast
  from i1 l have r2: "rows2 = [(''Food'', 1050), (''Travel'', 100), (''Budget'', 1000)]" by simp
  from i3 n have w2: "rollover_warning \<notin> set msgs2" by blast
  with i4 have "rows2' = rows2" "csv_files st2 = csv_files november_state"
    "reset_files st2 = reset_files november_state" by blast+
  with i2 r2 w2 have idle:
    "\<exists>st' msgs.
      month_handling ''asha'' mid_november
        (Frame [(''Food'', 1050), (''Travel'', 100), (''Budget'', 1000)]) november_state =
        Inr ([(''Food'', 1050), (''Travel'', 100), (''Budget'', 1000)], 1000, st', msgs) \<and>
      rollover_warning \<notin> set msgs \<and>
      csv_files st' = csv_files november_state \<and>
      reset_files st' = reset_files november_state"
    by blast
  from l b fired idle show ?thesis by (intro conjI)
qed

text \<open>
  Claim C2. When the rollover fires in a month 1 to 12, the date of the report that is
  closed is the first day of the current month less one day: the last day of the month
  before, in the year before when the current month is January. The closing block is
  appended to the report of that month and carries what \<open>compute_budget_status\<close> returns
  for the ledger as loaded, before the reset. In the scenario of 1 December 2025, marker
  \<^verbatim>\<open>2025-11\<close>, ledger Food 1050, Travel 100, Budget 1000, the November report gains the
  block with 1150, -150, 115 and the status of an exceeded budget, the saved ledger is
  Food 0, Travel 0, Budget 1000 and the marker is \<^verbatim>\<open>2025-12\<close>.
\<close>

theorem rollover_finalizes_previous_month:
  "(load_user_data name st = Inr df \<and> budget_value df = Inr b \<and>
    map_option strip (reset_files st (reset_file_path name)) \<noteq> Some (month_key dt) \<and>
    day dt = 1 \<and> 1 \<le> month dt \<and> month dt \<le> 12 \<longrightarrow>
      (\<exists>rows prev t p st'.
         load_user_data name st = Inr (Frame rows) \<and>
         prev = minus_one_day (replace_day dt 1) \<and>
         year prev = (if month dt = 1 then year dt - 1 else year dt) \<and>
         month prev = (if month dt = 1 then 12 else month dt - 1) \<and>
         day prev = days_in_month (year prev) (month prev) \<and>
         compute_budget_status (Frame rows) = Inr (b, t, b - t, p) \<and>
         month_handling name dt (Frame rows) st =
           Inr (reset_expenses rows, b, st', [rollover_warning]) \<and>
         report_files st' (report_file_path name prev) =
           Some ((case report_files st (report_file_path name prev) of
                    None \<Rightarrow> [] | Some old \<Rightarrow> old) @
                 summary_block t (b - t) p prev))) \<and>
   load_user_data ''asha'' november_state =
     Inr (Frame [(''Food'', 1050), (''Travel'', 100), (''Budget'', 1000)]) \<and>
   (\<exists>st'. month_handling ''asha'' first_december
            (Frame [(''Food'', 1050), (''Travel'', 100), (''Budget'', 1000)]) november_state =
            Inr ([(''Food'', 0), (''Travel'', 0), (''Budget'', 1000)], 1000, st',
                 [rollover_warning]) \<and>
      report_files st' ''monthly_reports/asha_November_2025.txt'' =
        Some (november_report @
              [BlankLine, SummaryHeadLine, TotalExpensesLine 1150, RemainingLine (- 150),
               PercentUsedLine 115, StatusLine ''Budget Exceeded'',
               ClosedOnLine ''30-11-2025'']) \<and>
      load_user_data ''asha'' st' =
        Inr (Frame [(''Food'', 0), (''Travel'', 0), (''Budget'', 1000)]) \<and>
      reset_files st' ''last_reset/asha.txt'' = Some ''2025-12'')"
proof (intro conjI impI)
  assume a: "load_user_data name st = Inr df \<and> budget_value df = Inr b \<and>
    map_option strip (reset_files st (reset_file_path name)) \<noteq> Some (month_key dt) \<and>
    day dt = 1 \<and> 1 \<le> month dt \<and> month dt \<le> 12"
  from a have ld: "load_user_data name st = Inr df" and b: "budget_value df = Inr b"
    by simp_all
  from budget_value_Frame [OF b] obtain rows where df: "df = Frame rows" by blast
  with ld b have l: "load_user_data name st = Inr (Frame rows)"
    and bv: "budget_value (Frame rows) = Inr b" by simp_all
  let ?prev = "minus_one_day (replace_day dt 1)"
  let ?t = "\<Sum>r\<leftarrow>rows. if fst r = ''Budget'' then 0 else snd r"
  let ?p = "if b > 0 then ?t / b * 100 else 0"
  let ?st1 = "if b > 0 \<and> report_files st (report_file_path name dt) = None
              then st\<lparr>report_files := (report_files st)
                        (report_file_path name dt \<mapsto> report_header name dt b)\<rparr>
              else st"
  let ?st' = "(save_user_data name (Frame (reset_expenses rows))
                 (append_lines (report_file_path name ?prev)
                    (summary_block ?t (b - ?t) ?p ?prev) ?st1))
              \<lparr>reset_files := (reset_files st)(reset_file_path name \<mapsto> month_key dt)\<rparr>"
  from a have c: "map_option strip (reset_files st (reset_file_path name)) \<noteq> Some (month_key dt)"
    and d: "day dt = 1" and m1: "1 \<le> month dt" and m12: "month dt \<le> 12" by simp_all
  have m: "month_handling name dt (Frame rows) st =
             Inr (reset_expenses rows, b, ?st', [rollover_warning])"
    by (rule month_handling_fire [OF l bv c d])
  have ne: "report_file_path name ?prev \<noteq> report_file_path name dt"
    by (rule previous_report_path [OF m1 m12])
  have old: "report_files ?st1 (report_file_path name ?prev) =
             report_files st (report_file_path name ?prev)"
    using ne by simp
  have rep: "report_files ?st' (report_file_path name ?prev) =
           Some ((case report_files st (report_file_path name ?prev) of
                    None \<Rightarrow> [] | Some old \<Rightarrow> old) @
                 summary_block ?t (b - ?t) ?p ?prev)"
    using old by (simp add: append_lines_def)
  have y: "year ?prev = (if month dt = 1 then year dt - 1 else year dt)"
    and mo: "month ?prev = (if month dt = 1 then 12 else month dt - 1)"
    using m1 by (auto simp: minus_one_day_def replace_day_def)
  have da: "day ?prev = days_in_month (year ?prev) (month ?prev)"
    using m1 by (auto simp: minus_one_day_def replace_day_def days_in_month_def)
  note cs = compute_budget_status_value [OF bv]
  from l y mo da cs m rep
  show "\<exists>rows prev t p st'.
         load_user_data name st = Inr (Frame rows) \<and>
         prev = minus_one_day (replace_day dt 1) \<and>
         year prev = (if month dt = 1 then year dt - 1 else year dt) \<and>
         month prev = (if month dt = 1 then 12 else month dt - 1) \<and>
         day prev = days_in_month (year prev) (month prev) \<and>
         compute_budget_status (Frame rows) = Inr (b, t, b - t, p) \<and>
         month_handling name dt (Frame rows) st =
           Inr (reset_expenses rows, b, st', [rollover_warning]) \<and>
         report_files st' (report_file_path name prev) =
           Some ((case report_files st (report_file_path name prev) of
                    None \<Rightarrow> [] | Some old \<Rightarrow> old) @
                 summary_block t (b - t) p prev)"
    by (intro exI [of _ rows] exI [of _ ?prev] exI [of _ ?t] exI [of _ ?p] exI [of _ ?st'])
       (simp only: simp_thms)
next
  show "load_user_data ''asha'' november_state =
     Inr (Frame [(''Food'', 1050), (''Travel'', 100), (''Budget'', 1000)])"
    by (simp add: november_state_def load_user_data_def path_defs)
next
  show "\<exists>st'. month_handling ''asha'' first_december
            (Frame [(''Food'', 1050), (''Travel'', 100), (''Budget'', 1000)]) november_state =
            Inr ([(''Food'', 0), (''Travel'', 0), (''Budget'', 1000)], 1000, st',
                 [rollover_warning]) \<and>
      report_files st' ''monthly_reports/asha_November_2025.txt'' =
        Some (november_report @
              [BlankLine, SummaryHeadLine, TotalExpensesLine 1150, RemainingLine (- 150),
               PercentUsedLine 115, StatusLine ''Budget Exceeded'',
               ClosedOnLine ''30-11-2025'']) \<and>
      load_user_data ''asha'' st' =
        Inr (Frame [(''Food'', 0), (''Travel'', 0), (''Budget'', 1000)]) \<and>
      reset_files st' ''last_reset/asha.txt'' = Some ''2025-12''"
    by (simp add: script_defs november_state_def first_december_def path_defs strip_marker)
qed

theorem rollover_finalizes_previous_month_witness:
  "load_user_data ''asha'' december_state = Inr (Frame [(''Food'', 300), (''Budget'', 1000)]) \<and>
   budget_value (Frame [(''Food'', 300), (''Budget'', 1000)]) = Inr 1000 \<and>
   map_option strip (reset_files december_state (reset_file_path ''asha'')) \<noteq>
     Some (month_key first_january) \<and>
   day first_january = 1 \<and> 1 \<le> month first_january \<and> month first_january \<le> 12 \<and>
   minus_one_day (replace_day first_january 1) =
     \<lparr>year = 2025, month = 12, day = 31, hour = 0, minute = 5\<rparr> \<and>
   (\<exists>st'. month_handling ''asha'' first_january (Frame [(''Food'', 300), (''Budget'', 1000)])
            december_state =
            Inr ([(''Food'', 0), (''Budget'', 1000)], 1000, st', [rollover_warning]) \<and>
      report_files st' ''monthly_reports/asha_December_2025.txt'' =
        Some [BlankLine, SummaryHeadLine, TotalExpensesLine 300, RemainingLine 700,
              PercentUsedLine 30, StatusLine ''Within Budget'', ClosedOnLine ''31-12-2025''])"
proof -
  have l: "load_user_data ''asha'' december_state =
             Inr (Frame [(''Food'', 300), (''Budget'', 1000)])"
    by (simp add: december_state_def load_user_data_def path_defs)
  have b: "budget_value (Frame [(''Food'', 300), (''Budget'', 1000)]) = Inr 1000" by simp
  have c: "map_option strip (reset_files december_state (reset_file_path ''asha'')) \<noteq>
             Some (month_key first_january)"
    by (simp add: december_state_def first_january_def path_defs strip_december)
  have d: "day first_january = 1" "1 \<le> month first_january" "month first_january \<le> 12"
    by (simp_all add: first_january_def)
  have pv: "minus_one_day (replace_day first_january 1) =
     \<lparr>year = 2025, month = 12, day = 31, hour = 0, minute = 5\<rparr>"
    by (simp add: first_january_def minus_one_day_def replace_day_def)
  have pp: "report_file_path ''asha'' \<lparr>year = 2025, month = 12, day = 31, hour = 0, minute = 5\<rparr>
              = ''monthly_reports/asha_December_2025.txt''"
    "closed_on \<lparr>year = 2025, month = 12, day = 31, hour = 0, minute = 5\<rparr> = ''31-12-2025''"
    by (simp_all add: path_defs)
  have old: "report_files december_state ''monthly_reports/asha_December_2025.txt'' = None"
    by (simp add: december_state_def)
  from l b c d rollover_finalizes_previous_month
    [of "''asha''" december_state "Frame [(''Food'', 300), (''Budget'', 1000)]" 1000 first_january]
  obtain rows prev t p st' where
    1: "load_user_data ''asha'' december_state = Inr (Frame rows)"
    and 2: "prev = minus_one_day (replace_day first_january 1)"
    and 3: "compute_budget_status (Frame rows) = Inr (1000, t, 1000 - t, p)"
    and 4: "month_handling ''asha'' first_january (Frame rows) december_state =
              Inr (reset_expenses rows, 1000, st', [rollover_warning])"
    and 5: "report_files st' (report_file_path ''asha'' prev) =
           Some ((case report_files december_state (report_file_path ''asha'' prev) of
                    None \<Rightarrow> [] | Some old \<Rightarrow> old) @
                 summary_block t (1000 - t) p prev)"
    by blast
  from 1 l have r: "rows = [(''Food'', 300), (''Budget'', 1000)]" by simp
  with 3 have tp: "t = 300" "p = 30" by (simp_all add: py_div_def)
  from 4 r have m4: "month_handling ''asha'' first_january (Frame [(''Food'', 300), (''Budget'', 1000)])
            december_state =
            Inr ([(''Food'', 0), (''Budget'', 1000)], 1000, st', [rollover_warning])"
    by (simp add: reset_expenses_def)
  from 5 2 pv pp old tp have r5: "report_files st' ''monthly_reports/asha_December_2025.txt'' =
        Some [BlankLine, SummaryHeadLine, TotalExpensesLine 300, RemainingLine 700,
              PercentUsedLine 30, StatusLine ''Within Budget'', ClosedOnLine ''31-12-2025'']"
    by (simp add: summary_block_def status_text_def)
  from l b c d pv m4 r5 show ?thesis by blast
qed

section \<open>Exactly one budget row\<close>

lemma budget_rows_fresh: "budget_rows fresh_ledger = 1"
  by (simp add: budget_rows_def fresh_ledger_def)

lemma budget_rows_add: "budget_rows (add_to_category c a rows) = budget_rows rows"
  unfolding budget_rows_def add_to_category_def by (induction rows) auto

lemma budget_rows_set: "budget_rows (set_budget v rows) = budget_rows rows"
  unfolding budget_rows_def set_budget_def by (induction rows) auto

lemma budget_rows_reset: "budget_rows (reset_expenses rows) = budget_rows rows"
  unfolding budget_rows_def reset_expenses_def by (induction rows) auto

lemma budget_rows_frame_after: "budget_rows (frame_after m rows) = budget_rows rows"
  by (induction m rows rule: frame_after.induct) (simp_all add: budget_rows_add budget_rows_set)

lemma budget_rows_map_fst:
  "(\<And>r. fst (f r) = fst r) \<Longrightarrow> budget_rows (map f rows) = budget_rows rows"
  unfolding budget_rows_def by (induction rows) auto

lemma budget_value_one:
  assumes "budget_rows rows = 1"
  shows "\<exists>b. budget_value (Frame rows) = Inr b"
proof -
  from assms have "filter (\<lambda>r. fst r = ''Budget'') rows \<noteq> []"
    by (auto simp: budget_rows_def)
  then show ?thesis by (cases "filter (\<lambda>r. fst r = ''Budget'') rows") auto
qed

lemma ledgers_ok_load:
  assumes "ledgers_ok st"
  shows "\<exists>rows. load_user_data name st = Inr (Frame rows) \<and> budget_rows rows = 1"
proof (cases "csv_files st (user_csv_path name)")
  case None
  then show ?thesis by (simp add: load_user_data_def budget_rows_fresh)
next
  case (Some t)
  with assms have "csv_one_budget t" by (auto simp: ledgers_ok_def)
  then obtain rows where t: "t = Table (Csv rows)" and r: "budget_rows rows = 1"
    by (cases t rule: csv_one_budget.cases) auto
  have "budget_rows (map (\<lambda>r. (fst r, fillna 0 (to_numeric_coerce (snd r)))) rows) = 1"
    using r by (simp add: budget_rows_map_fst)
  with Some t show ?thesis by (simp add: load_user_data_def)
qed

lemma ledgers_ok_same: "csv_files st' = csv_files st \<Longrightarrow> ledgers_ok st \<Longrightarrow> ledgers_ok st'"
  by (simp add: ledgers_ok_def)

lemma ledgers_ok_save:
  assumes "ledgers_ok st" "budget_rows rows = 1"
  shows "ledgers_ok (save_user_data name (Frame rows) st)"
proof -
  have "budget_rows (map (\<lambda>r. (fst r, Num (snd r))) rows) = 1"
    using assms(2) by (simp add: budget_rows_map_fst)
  with assms(1) show ?thesis by (auto simp: ledgers_ok_def save_user_data_def)
qed

lemma ensure_total:
  assumes "ledgers_ok st"
  shows "\<exists>st'. ensure_monthly_report_exists name dt st = Inr st' \<and> csv_files st' = csv_files st"
proof -
  from ledgers_ok_load [OF assms] obtain rows where
    l: "load_user_data name st = Inr (Frame rows)" and r: "budget_rows rows = 1" by blast
  from budget_value_one [OF r] obtain b where bv: "budget_value (Frame rows) = Inr b" by blast
  from ensure_result [OF l bv] show ?thesis by simp
qed

lemma ensure_ok:
  assumes "ledgers_ok st"
  shows "\<exists>st'. ensure_monthly_report_exists name dt st = Inr st' \<and> ledgers_ok st'"
  using ensure_total [OF assms] ledgers_ok_same [OF _ assms] by metis

lemma append_expense_ok:
  assumes "ledgers_ok st"
  shows "\<exists>st'. append_expense_to_report name c a dt st = Inr st' \<and> ledgers_ok st'"
proof -
  from ensure_ok [OF assms] obtain st1 where
    e: "ensure_monthly_report_exists name dt st = Inr st1" and o: "ledgers_ok st1" by blast
  have "ledgers_ok (append_lines p ls st1)" for p ls
    using o by (simp add: ledgers_ok_def append_lines_def)
  with e show ?thesis by (simp add: append_expense_to_report_def Let_def)
qed

lemma compute_total:
  assumes "budget_rows rows = 1"
  shows "\<exists>b t r p. compute_budget_status (Frame rows) = Inr (b, t, r, p)"
proof -
  from budget_value_one [OF assms] obtain b where "budget_value (Frame rows) = Inr b" by blast
  from compute_budget_status_value [OF this] show ?thesis by blast
qed

lemma month_handling_ok:
  assumes "ledgers_ok st"
  shows "\<exists>rows rows' b st' msgs.
           load_user_data name st = Inr (Frame rows) \<and>
           month_handling name dt (Frame rows) st = Inr (rows', b, st', msgs) \<and>
           ledgers_ok st' \<and> budget_rows rows' = 1"
proof -
  from ledgers_ok_load [OF assms] obtain rows where
    l: "load_user_data name st = Inr (Frame rows)" and r: "budget_rows rows = 1" by blast
  from budget_value_one [OF r] obtain b where bv: "budget_value (Frame rows) = Inr b" by blast
  let ?st1 = "if b > 0 \<and> report_files st (report_file_path name dt) = None
              then st\<lparr>report_files := (report_files st)
                        (report_file_path name dt \<mapsto> report_header name dt b)\<rparr>
              else st"
  have o1: "ledgers_ok ?st1" using assms by (simp add: ledgers_ok_def)
  show ?thesis
  proof (cases "map_option strip (reset_files st (reset_file_path name)) \<noteq> Some (month_key dt)
                \<and> day dt = 1")
    case False
    from month_handling_idle [OF l bv False] o1 r l show ?thesis by simp
  next
    case True
    then have c: "map_option strip (reset_files st (reset_file_path name)) \<noteq> Some (month_key dt)"
      and d: "day dt = 1" by simp_all
    have "ledgers_ok (append_lines p ls ?st1)" for p ls
      using o1 by (simp add: ledgers_ok_def append_lines_def)
    then have "ledgers_ok (save_user_data name (Frame (reset_expenses rows))
                 (append_lines p ls ?st1))" for p ls
      by (rule ledgers_ok_save) (simp add: budget_rows_reset r)
    then have "ledgers_ok ((save_user_data name (Frame (reset_expenses rows))
                 (append_lines p ls ?st1))\<lparr>reset_files := f\<rparr>)" for p ls f
      by (rule ledgers_ok_same [rotated]) simp
    with month_handling_fire [OF l bv c d] l r show ?thesis
      by (simp add: budget_rows_reset)
  qed
qed

lemma save_budget_ok:
  assumes "ledgers_ok st" "budget_rows rows = 1"
  shows "\<exists>st' msgs. save_budget_branch name dt v pressed rows st = Inr (st', msgs) \<and>
           ledgers_ok st'"
proof (cases pressed)
  case False
  with assms show ?thesis by (simp add: save_budget_branch_def)
next
  case True
  have "ledgers_ok (save_user_data name (Frame (set_budget v rows)) st)"
    using assms by (intro ledgers_ok_save) (simp_all add: budget_rows_set)
  from ensure_ok [OF this, of name dt] obtain st2 where
    "ensure_monthly_report_exists name dt
       (save_user_data name (Frame (set_budget v rows)) st) = Inr st2" "ledgers_ok st2"
    by blast
  with True show ?thesis by (simp add: save_budget_branch_def Let_def)
qed

lemma add_expense_ok:
  assumes "ledgers_ok st" "budget_rows rows = 1"
  shows "\<exists>st' msgs. add_expense_branch name dt c a rows st = Inr (st', msgs) \<and> ledgers_ok st'"
proof -
  let ?rows = "add_to_category c a rows"
  have r: "budget_rows ?rows = 1" using assms(2) by (simp add: budget_rows_add)
  have "ledgers_ok (save_user_data name (Frame ?rows) st)"
    using assms(1) r by (rule ledgers_ok_save)
  from ensure_ok [OF this] obtain st2 where
    e: "ensure_monthly_report_exists name dt (save_user_data name (Frame ?rows) st) = Inr st2"
    and o2: "ledgers_ok st2" by blast
  from append_expense_ok [OF o2] obtain st3 where
    a: "append_expense_to_report name c a dt st2 = Inr st3" and o3: "ledgers_ok st3" by blast
  from compute_total [OF r] obtain b t rm p where
    c: "compute_budget_status (Frame ?rows) = Inr (b, t, rm, p)" by blast
  from e a c o3 show ?thesis
    unfolding add_expense_branch_def Let_def
    by (simp del: compute_budget_status.simps)
qed

lemma modify_budget_ok:
  assumes "ledgers_ok st" "budget_rows rows = 1"
  shows "ledgers_ok (fst (modify_budget_branch name dt v rows st))"
proof -
  have "ledgers_ok (save_user_data name (Frame (set_budget v rows)) st)"
    using assms by (intro ledgers_ok_save) (simp_all add: budget_rows_set)
  then show ?thesis
    by (auto simp: modify_budget_branch_def Let_def ledgers_ok_def split: option.splits)
qed

lemma menu_ok:
  assumes "ledgers_ok st" "budget_rows rows = 1"
  shows "\<exists>st' msgs. menu_branch name dt m rows st = Inr (st', msgs) \<and> ledgers_ok st'"
proof (cases m)
  case View_Summary
  from compute_total [OF assms(2)] obtain b t r p where
    "compute_budget_status (Frame rows) = Inr (b, t, r, p)" by blast
  with View_Summary assms(1) show ?thesis
    by (simp add: menu_branch_def show_budget_summary_def del: compute_budget_status.simps)
next
  case (Add_Expense c a pressed)
  with assms add_expense_ok [OF assms, of name dt c a] show ?thesis
    by (cases pressed) (simp_all add: menu_branch_def)
next
  case (Modify_Budget v pressed)
  with assms modify_budget_ok [OF assms, of name dt v] show ?thesis
    by (cases pressed; cases "modify_budget_branch name dt v rows st")
       (simp_all add: menu_branch_def)
next
  case View_Reports
  with ensure_ok [OF assms(1), of name dt] show ?thesis
    by (auto simp: menu_branch_def)
next
  case View_Charts
  with assms show ?thesis by (simp add: menu_branch_def)
qed

lemma run_script_ok:
  assumes "ledgers_ok st"
  shows "\<exists>st' msgs. run_script name dt inp st = Inr (st', msgs) \<and> ledgers_ok st'"
proof -
  let ?st = "st\<lparr>users := insert name (users st)\<rparr>"
  have o: "ledgers_ok ?st" using assms by (simp add: ledgers_ok_def)
  from month_handling_ok [OF o] obtain rows0 rows b st1 msgs1 where
    l: "load_user_data name ?st = Inr (Frame rows0)"
    and m: "month_handling name dt (Frame rows0) ?st = Inr (rows, b, st1, msgs1)"
    and o1: "ledgers_ok st1" and r: "budget_rows rows = 1" by blast
  show ?thesis
  proof (cases "name \<notin> users st \<and> b = 0")
    case True
    from save_budget_ok [OF o1 r] obtain st2 msgs2 where
      "save_budget_branch name dt (new_budget inp) (save_budget_pressed inp) rows st1 =
         Inr (st2, msgs2)" "ledgers_ok st2" by blast
    with l m True show ?thesis by (simp add: run_script_def Let_def)
  next
    case False
    from menu_ok [OF o1 r] obtain st2 msgs2 where
      c: "menu_branch name dt (chosen inp) rows st1 = Inr (st2, msgs2)"
      and o2: "ledgers_ok st2" by blast
    have s: "ledgers_ok (save_user_data name (Frame (frame_after (chosen inp) rows)) st2)"
      using o2 by (rule ledgers_ok_save) (simp add: budget_rows_frame_after r)
    have u: "run_script name dt inp st =
               (if save_data_pressed inp then
                  Inr (save_user_data name (Frame (frame_after (chosen inp) rows)) st2,
                       msgs1 @ msgs2 @ [St_success ''Data saved.''])
                else Inr (st2, msgs1 @ msgs2))"
      unfolding run_script_def Let_def
      by (simp only: l m sum.case prod.case False if_False c)
    show ?thesis
    proof (cases "save_data_pressed inp")
      case True
      with u s show ?thesis by simp
    next
      case False
      with u o2 show ?thesis by simp
    qed
  qed
qed

lemma reachable_ok: "reachable st \<Longrightarrow> ledgers_ok st"
proof (induction rule: reachable.induct)
  case (start st)
  then show ?case by (simp add: ledgers_ok_def)
next
  case (run st name dt inp st' msgs)
  from run_script_ok [OF run.IH, of name dt inp] run.hyps(2) show ?case by auto
qed

text \<open>
  Claim C9. The fresh ledger has exactly one \<^verbatim>\<open>Budget\<close> row; adding an expense,
  setting or modifying the budget and the rollover reset keep the number of such rows,
  and loading what was saved gives the same rows. Hence in every state the program
  reaches from a start without ledger files, the ledger loaded for any name has exactly
  one \<^verbatim>\<open>Budget\<close> row, the lookup of the budget and the evaluator return a value, and a
  run of the script completes without raising, in a state reached again.
\<close>

theorem one_budget_row:
  "budget_rows fresh_ledger = 1 \<and>
   budget_rows (add_to_category category amount rows) = budget_rows rows \<and>
   budget_rows (set_budget v rows) = budget_rows rows \<and>
   budget_rows (reset_expenses rows) = budget_rows rows \<and>
   load_user_data name (save_user_data name (Frame rows) st0) = Inr (Frame rows) \<and>
   (reachable st \<longrightarrow>
      (\<exists>rows b t r p.
         load_user_data name st = Inr (Frame rows) \<and> budget_rows rows = 1 \<and>
         budget_value (Frame rows) = Inr b \<and>
         compute_budget_status (Frame rows) = Inr (b, t, r, p)) \<and>
      (\<exists>st' msgs. run_script name dt inp st = Inr (st', msgs) \<and> reachable st'))"
proof (intro conjI impI)
  show "budget_rows fresh_ledger = 1" by (rule budget_rows_fresh)
  show "budget_rows (add_to_category category amount rows) = budget_rows rows"
    by (rule budget_rows_add)
  show "budget_rows (set_budget v rows) = budget_rows rows" by (rule budget_rows_set)
  show "budget_rows (reset_expenses rows) = budget_rows rows" by (rule budget_rows_reset)
  show "load_user_data name (save_user_data name (Frame rows) st0) = Inr (Frame rows)"
    by (rule load_after_save)
next
  assume "reachable st"
  then have "ledgers_ok st" by (rule reachable_ok)
  from ledgers_ok_load [OF this] obtain rows where
    l: "load_user_data name st = Inr (Frame rows)" and r: "budget_rows rows = 1" by blast
  from budget_value_one [OF r] obtain b where bv: "budget_value (Frame rows) = Inr b" by blast
  from l r bv compute_budget_status_value [OF bv]
  show "\<exists>rows b t r p.
         load_user_data name st = Inr (Frame rows) \<and> budget_rows rows = 1 \<and>
         budget_value (Frame rows) = Inr b \<and>
         compute_budget_status (Frame rows) = Inr (b, t, r, p)"
    by blast
next
  assume a: "reachable st"
  then have "ledgers_ok st" by (rule reachable_ok)
  from run_script_ok [OF this, of name dt inp] obtain st' msgs where
    "run_script name dt inp st = Inr (st', msgs)" by blast
  with a reachable.run show "\<exists>st' msgs. run_script name dt inp st = Inr (st', msgs) \<and> reachable st'"
    by blast
qed

lemma run_first_budget:
  "\<exists>st' msgs. run_script ''asha'' mid_november first_budget no_files = Inr (st', msgs) \<and>
     load_user_data ''asha'' st' =
       Inr (Frame [(''Food'', 0), (''Travel'', 0), (''Loans'', 0), (''Entertainment'', 0),
                   (''Shopping'', 0), (''Others'', 0), (''Budget'', 1000)]) \<and>
     report_files st' ''monthly_reports/asha_November_2025.txt'' =
       Some [TitleLine ''asha'' ''November 2025'', BudgetLine 1000, ColumnsLine]"
  by (simp add: script_defs no_files_def mid_november_def first_budget_def path_defs)

theorem one_budget_row_witness:
  "reachable no_files \<and>
   (\<exists>st' msgs. run_script ''asha'' mid_november first_budget no_files = Inr (st', msgs) \<and>
      reachable st' \<and>
      load_user_data ''asha'' st' =
        Inr (Frame [(''Food'', 0), (''Travel'', 0), (''Loans'', 0), (''Entertainment'', 0),
                    (''Shopping'', 0), (''Others'', 0), (''Budget'', 1000)]) \<and>
      budget_rows [(''Food'', 0::real), (''Travel'', 0), (''Loans'', 0), (''Entertainment'', 0),
               (''Shopping'', 0), (''Others'', 0), (''Budget'', 1000)] = 1 \<and>
      budget_value (Frame [(''Food'', 0), (''Travel'', 0), (''Loans'', 0), (''Entertainment'', 0),
               (''Shopping'', 0), (''Others'', 0), (''Budget'', 1000)]) = Inr 1000)"
proof -
  have s: "reachable no_files" by (rule reachable.start) (simp add: no_files_def)
  from run_first_budget obtain st1 msgs1 where
    r: "run_script ''asha'' mid_november first_budget no_files = Inr (st1, msgs1)"
    and l: "load_user_data ''asha'' st1 =
       Inr (Frame [(''Food'', 0), (''Travel'', 0), (''Loans'', 0), (''Entertainment'', 0),
                   (''Shopping'', 0), (''Others'', 0), (''Budget'', 1000)])"
    by blast
  from s one_budget_row [where st = no_files and name = "''asha''" and dt = mid_november
      and inp = first_budget] r
  have r1: "reachable st1" by auto
  from r1 one_budget_row [where st = st1 and name = "''asha''"] l
  have "budget_rows [(''Food'', 0::real), (''Travel'', 0), (''Loans'', 0), (''Entertainment'', 0),
               (''Shopping'', 0), (''Others'', 0), (''Budget'', 1000)] = 1"
    by auto
  moreover have "budget_value (Frame [(''Food'', 0), (''Travel'', 0), (''Loans'', 0),
               (''Entertainment'', 0), (''Shopping'', 0), (''Others'', 0), (''Budget'', 1000)])
             = Inr 1000"
    by simp
  ultimately show ?thesis using s r r1 l by blast
qed

end
